theory Spec2Isabelle
  imports Main
begin

section \<open>Data model\<close>

text \<open>
  The store is the relational database behind the Prisma client. Only the columns the
  checkout route (\<^verbatim>\<open>api/customer/checkout\<close>), the order route
  (\<^verbatim>\<open>api/customer/orders/[code]\<close>) and the cart route (\<^verbatim>\<open>api/cart\<close>) read or
  write are kept. Money and quantities are JavaScript numbers holding integers; they are
  \<^typ>\<open>int\<close> here, and the arithmetic the routes do on them in JavaScript is the
  arithmetic of doubles, defined below. The order status has the two values the routes
  write and test.
\<close>

datatype order_status = AWAITING_PAYMENT | PAID

datatype dining_type = DINE_IN | TAKE_AWAY

datatype payment_choice = CASH | CASHLESS

text \<open>
  A \<^verbatim>\<open>Date\<close> is kept by its local-time fields, the ones \<^verbatim>\<open>setHours\<close>,
  \<^verbatim>\<open>getFullYear\<close>, \<^verbatim>\<open>getMonth\<close> and \<^verbatim>\<open>getDate\<close> work on; \<open>month\<close> is
  zero-based as \<^verbatim>\<open>getMonth\<close> returns it. Two dates compare by these fields in
  lexicographic order, which is the order of the instants as long as the local offset
  is constant.
\<close>

record jsdate =
  year :: nat
  month :: nat
  day :: nat
  hours :: nat
  minutes :: nat
  seconds :: nat
  millis :: nat

record product_row =
  p_name :: string
  p_price :: int
  p_stock :: int
  p_isActive :: bool

record cart_item =
  ci_productId :: string
  ci_qty :: int

record order_item =
  oi_productId :: string
  oi_qty :: int
  oi_price :: int
  oi_total :: int

record order_row =
  o_id :: string
  o_code :: string
  o_queueNumber :: string
  o_diningType :: dining_type
  o_status :: order_status
  o_subtotal :: int
  o_discount :: int
  o_tax :: int
  o_total :: int
  o_customerId :: string
  o_items :: "order_item list"
  o_createdAt :: jsdate
  o_closedAt :: "jsdate option"

text \<open>
  Products are keyed by id, carts by their customer (one cart per customer), and the
  order table is the list of its rows in insertion order.
\<close>

record db =
  products :: "string \<rightharpoonup> product_row"
  carts :: "string \<rightharpoonup> cart_item list"
  orders :: "order_row list"

section \<open>Responses\<close>

record order_detail_item =
  productName :: string
  d_qty :: int
  d_price :: int
  d_total :: int

datatype body =
    ErrorBody string
  | InvalidPayloadBody
  | TextBody string
  | OkBody
  | OkAlreadyBody
  | CashBody string string int
  | CashlessBody string string string int string
  | OrderDetailBody string order_status int "order_detail_item list"

datatype response = Response nat body

section \<open>JavaScript numbers\<close>

text \<open>
  A JavaScript number is a double. On integers, \<^verbatim>\<open>+\<close>, \<^verbatim>\<open>-\<close> and \<^verbatim>\<open>*\<close> give the exact
  result rounded to the nearest double, ties to the even significand. Below \<open>2^53\<close> every
  integer is a double; from there on the doubles are the multiples of \<open>ulp_of\<close>, the
  power of two that leaves 53 significant bits. Results of magnitude \<open>2^1024\<close> and more,
  which JavaScript turns into \<^verbatim>\<open>Infinity\<close>, are outside this model.
\<close>

fun ulp_of :: "nat \<Rightarrow> nat" where
  "ulp_of m = (if m < 9007199254740992 then 1 else 2 * ulp_of (m div 2))"

declare ulp_of.simps [simp del]

definition round_nat :: "nat \<Rightarrow> nat" where
  "round_nat m =
     (let u = ulp_of m; q = m div u; r = m mod u
      in if 2 * r < u then q * u
         else if u < 2 * r then (q + 1) * u
         else if even q then q * u
         else (q + 1) * u)"

definition js_round :: "int \<Rightarrow> int" where
  "js_round n = (if n < 0 then - int (round_nat (nat (- n))) else int (round_nat (nat n)))"

definition js_add :: "int \<Rightarrow> int \<Rightarrow> int" where
  "js_add a b = js_round (a + b)"

definition js_sub :: "int \<Rightarrow> int \<Rightarrow> int" where
  "js_sub a b = js_round (a - b)"

definition js_mul :: "int \<Rightarrow> int \<Rightarrow> int" where
  "js_mul a b = js_round (a * b)"

section \<open>Dates, queue numbers and order codes\<close>

fun lex_le :: "nat list \<Rightarrow> nat list \<Rightarrow> bool" where
  "lex_le [] ys = True"
| "lex_le (x # xs) [] = False"
| "lex_le (x # xs) (y # ys) = (x < y \<or> (x = y \<and> lex_le xs ys))"

definition date_key :: "jsdate \<Rightarrow> nat list" where
  "date_key d = [year d, month d, day d, hours d, minutes d, seconds d, millis d]"

definition date_le :: "jsdate \<Rightarrow> jsdate \<Rightarrow> bool" where
  "date_le a b = lex_le (date_key a) (date_key b)"

definition startOfDay :: "jsdate \<Rightarrow> jsdate" where
  "startOfDay d = d\<lparr>hours := 0, minutes := 0, seconds := 0, millis := 0\<rparr>"

definition endOfDay :: "jsdate \<Rightarrow> jsdate" where
  "endOfDay d = d\<lparr>hours := 23, minutes := 59, seconds := 59, millis := 999\<rparr>"

text \<open>\<^verbatim>\<open>String(n)\<close> on a non-negative integer: its decimal digits.\<close>

definition digit_char :: "nat \<Rightarrow> char" where
  "digit_char n = ''0123456789'' ! (n mod 10)"

fun string_of_nat :: "nat \<Rightarrow> string" where
  "string_of_nat n =
     (if n < 10 then [digit_char n]
      else string_of_nat (n div 10) @ [digit_char (n mod 10)])"

declare string_of_nat.simps [simp del]

text \<open>\<^verbatim>\<open>s.padStart(n, c)\<close> with a one-character filler.\<close>

definition padStart :: "nat \<Rightarrow> char \<Rightarrow> string \<Rightarrow> string" where
  "padStart n c s = replicate (n - length s) c @ s"

definition createdToday :: "jsdate \<Rightarrow> order_row \<Rightarrow> bool" where
  "createdToday now ord =
     (date_le (startOfDay now) (o_createdAt ord) \<and> date_le (o_createdAt ord) (endOfDay now))"

definition getTodayQueueNumber :: "jsdate \<Rightarrow> order_row list \<Rightarrow> string" where
  "getTodayQueueNumber now os =
     (let count = length (filter (createdToday now) os)
      in padStart 3 (CHR ''0'') (string_of_nat (count + 1)))"

definition makeOrderCode :: "jsdate \<Rightarrow> string \<Rightarrow> string" where
  "makeOrderCode now queueNumber =
     (let yyyy = string_of_nat (year now);
          mm = padStart 2 (CHR ''0'') (string_of_nat (month now + 1));
          dd = padStart 2 (CHR ''0'') (string_of_nat (day now))
      in ''ORD-'' @ yyyy @ mm @ dd @ ''-'' @ queueNumber)"

section \<open>Checkout: \<^verbatim>\<open>POST /api/customer/checkout\<close>\<close>

text \<open>
  The cart is read with its lines joined to their products; a joined line carries what
  the route selects. A line whose product row is missing cannot be joined: the query
  throws and the route's \<^verbatim>\<open>catch\<close> answers 500.
\<close>

record snap_line =
  sl_productId :: string
  sl_name :: string
  sl_price :: int
  sl_stock :: int
  sl_isActive :: bool
  sl_qty :: int

definition join_line :: "(string \<rightharpoonup> product_row) \<Rightarrow> cart_item \<Rightarrow> snap_line option" where
  "join_line ps ci =
     (case ps (ci_productId ci) of
        None \<Rightarrow> None
      | Some p \<Rightarrow>
          Some \<lparr>sl_productId = ci_productId ci, sl_name = p_name p, sl_price = p_price p,
                sl_stock = p_stock p, sl_isActive = p_isActive p, sl_qty = ci_qty ci\<rparr>)"

definition join_lines :: "(string \<rightharpoonup> product_row) \<Rightarrow> cart_item list \<Rightarrow> snap_line list option" where
  "join_lines ps items = those (map (join_line ps) items)"

definition server_error :: response where
  "server_error = Response 500 (ErrorBody ''Terjadi kesalahan pada server.'')"

definition empty_cart :: response where
  "empty_cart = Response 409 (ErrorBody ''Keranjang kosong.'')"

definition unavailable :: "string \<Rightarrow> response" where
  "unavailable name = Response 409 (ErrorBody (''Produk '' @ name @ '' tidak tersedia.''))"

definition insufficient :: "string \<Rightarrow> response" where
  "insufficient name = Response 409 (ErrorBody (''Stok '' @ name @ '' tidak mencukupi.''))"

text \<open>The validation loop: \<open>Some r\<close> is the early return of response \<open>r\<close>.\<close>

fun validate :: "snap_line list \<Rightarrow> response option" where
  "validate [] = None"
| "validate (it # rest) =
     (if \<not> sl_isActive it then Some (unavailable (sl_name it))
      else if sl_qty it > sl_stock it then Some (insufficient (sl_name it))
      else validate rest)"

definition cart_subtotal :: "snap_line list \<Rightarrow> int" where
  "cart_subtotal lines = foldl (\<lambda>s it. js_add s (js_mul (sl_price it) (sl_qty it))) 0 lines"

text \<open>
  \<^verbatim>\<open>tx.order.create\<close>: the code is a unique column (the order route looks an order up
  with \<^verbatim>\<open>findUnique({ where: { code } })\<close>) and the id is the primary key, so the insert
  throws (\<open>None\<close>) when either is taken. \<^verbatim>\<open>tx.cart.delete\<close> throws when the customer
  has no cart.
\<close>

definition order_create :: "order_row \<Rightarrow> order_row list \<Rightarrow> order_row list option" where
  "order_create ord os =
     (if o_code ord \<in> set (map o_code os) \<or> o_id ord \<in> set (map o_id os) then None
      else Some (os @ [ord]))"

definition cart_delete :: "string \<Rightarrow> (string \<rightharpoonup> cart_item list) \<Rightarrow> (string \<rightharpoonup> cart_item list) option" where
  "cart_delete uid cs = (case cs uid of None \<Rightarrow> None | Some items \<Rightarrow> Some (cs(uid := None)))"

definition order_lines :: "snap_line list \<Rightarrow> order_item list" where
  "order_lines lines =
     map (\<lambda>it. \<lparr>oi_productId = sl_productId it, oi_qty = sl_qty it, oi_price = sl_price it,
                 oi_total = js_mul (sl_price it) (sl_qty it)\<rparr>) lines"

text \<open>
  What the request gets from outside the store: the clock, the id the store gives the
  new order, the gateway's configuration and the gateway itself (\<open>None\<close> when
  \<^verbatim>\<open>createTransactionToken\<close> rejects). One request reads the clock at one instant.
\<close>

record snap_params =
  order_id :: string
  gross_amount :: int
  custom_field1 :: string
  custom_field2 :: string

record checkout_ctx =
  ctx_now :: jsdate
  ctx_newId :: string
  ctx_serverKey :: "string option"
  ctx_isProduction :: bool
  ctx_gateway :: "bool \<Rightarrow> string \<Rightarrow> snap_params \<Rightarrow> string option"

text \<open>
  The transaction. The queue number is counted through the global client, outside the
  transaction's own connection, so it is counted on the committed state \<open>seen\<close> that the
  request's reads observe, while the insert and the cart deletion run on the state \<open>db\<close>
  the store has when the transaction executes. A request that runs alone has
  \<open>seen = db\<close>. The store fills in the creation time of the new row; it is the
  request's instant. The result is \<open>None\<close> when a statement throws: nothing is written.
\<close>

definition checkout_tx ::
  "checkout_ctx \<Rightarrow> string \<Rightarrow> dining_type \<Rightarrow> snap_line list \<Rightarrow> int \<Rightarrow> int \<Rightarrow> int \<Rightarrow> int \<Rightarrow>
   db \<Rightarrow> db \<Rightarrow> (db \<times> order_row) option" where
  "checkout_tx ctx uid diningType lines subtotal discount tax total' seen db =
     (let queueNumber = getTodayQueueNumber (ctx_now ctx) (orders seen);
          code = makeOrderCode (ctx_now ctx) queueNumber;
          ord = \<lparr>o_id = ctx_newId ctx, o_code = code, o_queueNumber = queueNumber,
                 o_diningType = diningType, o_status = AWAITING_PAYMENT,
                 o_subtotal = subtotal, o_discount = discount, o_tax = tax, o_total = total',
                 o_customerId = uid, o_items = order_lines lines,
                 o_createdAt = ctx_now ctx, o_closedAt = None\<rparr>
      in case order_create ord (orders db) of
           None \<Rightarrow> None
         | Some os \<Rightarrow>
             (case cart_delete uid (carts db) of
                None \<Rightarrow> None
              | Some cs \<Rightarrow> Some (db\<lparr>carts := cs, orders := os\<rparr>, ord)))"

definition misconfigured :: response where
  "misconfigured = Response 500 (ErrorBody ''MIDTRANS_SERVER_KEY tidak dikonfigurasi.'')"

definition midtransOrderId :: "order_row \<Rightarrow> string" where
  "midtransOrderId created = o_code created @ ''-'' @ take 8 (o_id created)"

definition snapParams :: "order_row \<Rightarrow> snap_params" where
  "snapParams created =
     \<lparr>order_id = midtransOrderId created, gross_amount = o_total created,
      custom_field1 = o_id created, custom_field2 = o_code created\<rparr>"

definition payment_step :: "checkout_ctx \<Rightarrow> payment_choice \<Rightarrow> order_row \<Rightarrow> response" where
  "payment_step ctx paymentChoice created =
     (if paymentChoice = CASH
      then Response 200 (CashBody (o_id created) (o_code created) (o_total created))
      else
        (case ctx_serverKey ctx of
           None \<Rightarrow> misconfigured
         | Some serverKey \<Rightarrow>
             if serverKey = [] then misconfigured
             else
               (case ctx_gateway ctx (ctx_isProduction ctx) serverKey (snapParams created) of
                  None \<Rightarrow> server_error
                | Some snapToken \<Rightarrow>
                    Response 200
                      (CashlessBody (o_id created) (o_code created) (midtransOrderId created)
                         (o_total created) snapToken))))"

text \<open>
  The route. \<open>user\<close> is the id of the session's user (\<open>None\<close> without a session; an empty
  id is falsy), \<open>parsed\<close> the outcome of \<^verbatim>\<open>bodySchema.safeParse\<close>. The cart is read
  on \<open>seen\<close>, before the transaction; every early return and the \<^verbatim>\<open>catch\<close> leave the
  store \<open>db\<close> as it is. It returns the store after the request and the response.
\<close>

definition POST_checkout ::
  "checkout_ctx \<Rightarrow> string option \<Rightarrow> (dining_type \<times> payment_choice) option \<Rightarrow> db \<Rightarrow> db \<Rightarrow>
   db \<times> response" where
  "POST_checkout ctx user parsed seen db =
     (case user of
        None \<Rightarrow> (db, Response 401 (ErrorBody ''Unauthorized''))
      | Some uid \<Rightarrow>
          if uid = [] then (db, Response 401 (ErrorBody ''Unauthorized''))
          else
            (case parsed of
               None \<Rightarrow> (db, Response 422 InvalidPayloadBody)
             | Some (diningType, paymentChoice) \<Rightarrow>
                 (case carts seen uid of
                    None \<Rightarrow> (db, empty_cart)
                  | Some items \<Rightarrow>
                      (case join_lines (products seen) items of
                         None \<Rightarrow> (db, server_error)
                       | Some lines \<Rightarrow>
                           if length lines = 0 then (db, empty_cart)
                           else
                             (case validate lines of
                                Some r \<Rightarrow> (db, r)
                              | None \<Rightarrow>
                                  (let subtotal = cart_subtotal lines;
                                       discount = 0;
                                       tax = 0;
                                       total' = js_add (js_sub subtotal discount) tax
                                   in case checkout_tx ctx uid diningType lines subtotal
                                             discount tax total' seen db of
                                        None \<Rightarrow> (db, server_error)
                                      | Some (db', created) \<Rightarrow>
                                          (db', payment_step ctx paymentChoice created)))))))"

section \<open>Orders: \<^verbatim>\<open>GET\<close> and \<^verbatim>\<open>POST /api/customer/orders/[code]\<close>\<close>

definition detail_item :: "(string \<rightharpoonup> product_row) \<Rightarrow> order_item \<Rightarrow> order_detail_item option" where
  "detail_item ps it =
     (case ps (oi_productId it) of
        None \<Rightarrow> None
      | Some p \<Rightarrow>
          Some \<lparr>productName = p_name p, d_qty = oi_qty it, d_price = oi_price it,
                d_total = oi_total it\<rparr>)"

definition GET_order :: "string option \<Rightarrow> string \<Rightarrow> db \<Rightarrow> response" where
  "GET_order user code db =
     (case user of
        None \<Rightarrow> Response 401 (ErrorBody ''Unauthorized'')
      | Some uid \<Rightarrow>
          if uid = [] then Response 401 (ErrorBody ''Unauthorized'')
          else
            (case find (\<lambda>ord. o_code ord = code \<and> o_customerId ord = uid) (orders db) of
               None \<Rightarrow> Response 404 (ErrorBody ''Not found'')
             | Some ord \<Rightarrow>
                 (case those (map (detail_item (products db)) (o_items ord)) of
                    None \<Rightarrow> Response 500 (ErrorBody ''Server error'')
                  | Some items \<Rightarrow>
                      Response 200
                        (OrderDetailBody (o_code ord) (o_status ord) (o_total ord) items))))"

text \<open>
  \<^verbatim>\<open>tx.product.update\<close> with \<^verbatim>\<open>stock: { decrement: qty }\<close>, once per order line in
  order; it throws when the product row is missing.
\<close>

fun decrement_stock :: "order_item list \<Rightarrow> (string \<rightharpoonup> product_row) \<Rightarrow> (string \<rightharpoonup> product_row) option" where
  "decrement_stock [] ps = Some ps"
| "decrement_stock (it # rest) ps =
     (case ps (oi_productId it) of
        None \<Rightarrow> None
      | Some p \<Rightarrow> decrement_stock rest (ps(oi_productId it \<mapsto> p\<lparr>p_stock := p_stock p - oi_qty it\<rparr>)))"

definition mark_paid :: "string \<Rightarrow> jsdate \<Rightarrow> order_row \<Rightarrow> order_row" where
  "mark_paid oid now ord =
     (if o_id ord = oid then ord\<lparr>o_status := PAID, o_closedAt := Some now\<rparr> else ord)"

definition order_update_paid :: "string \<Rightarrow> jsdate \<Rightarrow> order_row list \<Rightarrow> order_row list option" where
  "order_update_paid oid now os =
     (if oid \<in> set (map o_id os) then Some (map (mark_paid oid now) os) else None)"

definition confirm_tx :: "jsdate \<Rightarrow> order_row \<Rightarrow> db \<Rightarrow> db option" where
  "confirm_tx now ord db =
     (case decrement_stock (o_items ord) (products db) of
        None \<Rightarrow> None
      | Some ps \<Rightarrow>
          (case order_update_paid (o_id ord) now (orders db) of
             None \<Rightarrow> None
           | Some os \<Rightarrow> Some (db\<lparr>products := ps, orders := os\<rparr>)))"

text \<open>
  The order and its lines are read before the transaction, on the committed state
  \<open>seen\<close>; the transaction runs on \<open>db\<close>. A request that runs alone has \<open>seen = db\<close>.
\<close>

definition POST_confirm :: "jsdate \<Rightarrow> string \<Rightarrow> db \<Rightarrow> db \<Rightarrow> db \<times> response" where
  "POST_confirm now code seen db =
     (case find (\<lambda>ord. o_code ord = code) (orders seen) of
        None \<Rightarrow> (db, Response 404 (ErrorBody ''Not found''))
      | Some ord \<Rightarrow>
          if o_status ord = PAID then (db, Response 200 OkAlreadyBody)
          else
            (case confirm_tx now ord db of
               None \<Rightarrow> (db, Response 500 (ErrorBody ''Server error''))
             | Some db' \<Rightarrow> (db', Response 200 OkBody)))"

section \<open>Cart: \<^verbatim>\<open>DELETE /api/cart\<close>\<close>

definition DELETE_cart :: "string option \<Rightarrow> db \<Rightarrow> db \<times> response" where
  "DELETE_cart user db =
     (case user of
        None \<Rightarrow> (db, Response 401 (TextBody ''Unauthorized''))
      | Some uid \<Rightarrow>
          (case cart_delete uid (carts db) of
             None \<Rightarrow> (db, Response 200 OkBody)
           | Some cs \<Rightarrow> (db\<lparr>carts := cs\<rparr>, Response 200 OkBody)))"

section \<open>Auxiliary notions for the properties\<close>

text \<open>The quantity an order takes of product \<open>pid\<close>, over all its lines.\<close>

definition ordered_qty :: "string \<Rightarrow> order_item list \<Rightarrow> int" where
  "ordered_qty pid its = sum_list (map oi_qty (filter (\<lambda>it. oi_productId it = pid) its))"

definition take_stock :: "order_item list \<Rightarrow> (string \<rightharpoonup> product_row) \<Rightarrow> (string \<rightharpoonup> product_row)" where
  "take_stock its ps =
     (\<lambda>pid. map_option (\<lambda>p. p\<lparr>p_stock := p_stock p - ordered_qty pid its\<rparr>) (ps pid))"

text \<open>A cart line that passes the validation loop.\<close>

definition line_ok :: "snap_line \<Rightarrow> bool" where
  "line_ok it = (sl_isActive it \<and> \<not> sl_qty it > sl_stock it)"

text \<open>
  The row a checkout of the joined lines \<open>lines\<close> inserts. Its total is the subtotal:
  taking 0 from a double and adding 0 to it leave it as it is.
\<close>

definition placed_order :: "checkout_ctx \<Rightarrow> string \<Rightarrow> dining_type \<Rightarrow> snap_line list \<Rightarrow> db \<Rightarrow> order_row" where
  "placed_order ctx uid diningType lines seen =
     \<lparr>o_id = ctx_newId ctx,
      o_code = makeOrderCode (ctx_now ctx) (getTodayQueueNumber (ctx_now ctx) (orders seen)),
      o_queueNumber = getTodayQueueNumber (ctx_now ctx) (orders seen),
      o_diningType = diningType, o_status = AWAITING_PAYMENT,
      o_subtotal = cart_subtotal lines, o_discount = 0, o_tax = 0,
      o_total = cart_subtotal lines,
      o_customerId = uid, o_items = order_lines lines,
      o_createdAt = ctx_now ctx, o_closedAt = None\<rparr>"

subsection \<open>A small restaurant, for the concrete runs\<close>

definition morning :: jsdate where
  "morning = \<lparr>year = 2024, month = 0, day = 17, hours = 10, minutes = 30, seconds = 0, millis = 0\<rparr>"

definition noon :: jsdate where
  "noon = \<lparr>year = 2024, month = 0, day = 17, hours = 12, minutes = 0, seconds = 0, millis = 0\<rparr>"

definition menu :: "string \<rightharpoonup> product_row" where
  "menu = [''A'' \<mapsto> \<lparr>p_name = ''Nasi Goreng'', p_price = 25000, p_stock = 10, p_isActive = True\<rparr>,
           ''B'' \<mapsto> \<lparr>p_name = ''Es Teh'', p_price = 15000, p_stock = 5, p_isActive = True\<rparr>]"

definition order1 :: order_row where
  "order1 =
     \<lparr>o_id = ''0b7e6a52'', o_code = ''ORD-20240117-001'', o_queueNumber = ''001'',
      o_diningType = DINE_IN, o_status = AWAITING_PAYMENT,
      o_subtotal = 65000, o_discount = 0, o_tax = 0, o_total = 65000, o_customerId = ''u1'',
      o_items = [\<lparr>oi_productId = ''A'', oi_qty = 2, oi_price = 25000, oi_total = 50000\<rparr>,
                 \<lparr>oi_productId = ''B'', oi_qty = 1, oi_price = 15000, oi_total = 15000\<rparr>],
      o_createdAt = morning, o_closedAt = None\<rparr>"

definition db_awaiting :: db where
  "db_awaiting = \<lparr>products = menu, carts = Map.empty, orders = [order1]\<rparr>"

subsection \<open>The retry loop the specification asks for\<close>

text \<open>
  Following the specification's words (sections 4.5 and 5): on a failed commit the
  whole unit rolls back and allocation and commit are tried again with a freshly
  allocated code (counted on the store as it is then), at most \<open>retries\<close> more times; a
  transient conflict is surfaced only when the retries are exhausted. The route has
  no such loop; this definition is what the route is compared with.
\<close>

datatype 'a attempt = Done 'a | TransientConflict

fun checkout_retry_spec ::
  "nat \<Rightarrow> checkout_ctx \<Rightarrow> string \<Rightarrow> dining_type \<Rightarrow> payment_choice \<Rightarrow> snap_line list \<Rightarrow>
   db \<Rightarrow> db \<Rightarrow> (db \<times> response) attempt" where
  "checkout_retry_spec 0 ctx uid dt pc lines seen db =
     (case checkout_tx ctx uid dt lines (cart_subtotal lines) 0 0 (js_add (js_sub (cart_subtotal lines) 0) 0) seen db of
        Some (db', created) \<Rightarrow> Done (db', payment_step ctx pc created)
      | None \<Rightarrow> TransientConflict)"
| "checkout_retry_spec (Suc n) ctx uid dt pc lines seen db =
     (case checkout_tx ctx uid dt lines (cart_subtotal lines) 0 0 (js_add (js_sub (cart_subtotal lines) 0) 0) seen db of
        Some (db', created) \<Rightarrow> Done (db', payment_step ctx pc created)
      | None \<Rightarrow> checkout_retry_spec n ctx uid dt pc lines db db)"

subsection \<open>More of the small restaurant\<close>

definition till :: checkout_ctx where
  "till = \<lparr>ctx_now = noon, ctx_newId = ''7c1d9e04'', ctx_serverKey = None,
           ctx_isProduction = False, ctx_gateway = (\<lambda>production key params. None)\<rparr>"

definition kiosk :: checkout_ctx where
  "kiosk = \<lparr>ctx_now = noon, ctx_newId = ''7c1d9e04'', ctx_serverKey = Some ''SB-Mid-server-k1'',
           ctx_isProduction = False, ctx_gateway = (\<lambda>production key params. None)\<rparr>"

definition db_scenario :: db where
  "db_scenario =
     \<lparr>products = menu,
      carts = [''u1'' \<mapsto> [\<lparr>ci_productId = ''A'', ci_qty = 2\<rparr>, \<lparr>ci_productId = ''B'', ci_qty = 1\<rparr>]],
      orders = []\<rparr>"

definition lines_scenario :: "snap_line list" where
  "lines_scenario =
     [\<lparr>sl_productId = ''A'', sl_name = ''Nasi Goreng'', sl_price = 25000, sl_stock = 10,
       sl_isActive = True, sl_qty = 2\<rparr>,
      \<lparr>sl_productId = ''B'', sl_name = ''Es Teh'', sl_price = 15000, sl_stock = 5,
       sl_isActive = True, sl_qty = 1\<rparr>]"

definition db_no_cart :: db where
  "db_no_cart = \<lparr>products = menu, carts = Map.empty, orders = []\<rparr>"

definition db_short :: db where
  "db_short =
     \<lparr>products = [''A'' \<mapsto> \<lparr>p_name = ''Nasi Goreng'', p_price = 25000, p_stock = 3, p_isActive = True\<rparr>],
      carts = [''u1'' \<mapsto> [\<lparr>ci_productId = ''A'', ci_qty = 4\<rparr>]],
      orders = []\<rparr>"

definition db_inactive :: db where
  "db_inactive =
     \<lparr>products = menu(''C'' \<mapsto> \<lparr>p_name = ''Sate'', p_price = 30000, p_stock = 7, p_isActive = False\<rparr>),
      carts = [''u1'' \<mapsto> [\<lparr>ci_productId = ''B'', ci_qty = 1\<rparr>, \<lparr>ci_productId = ''C'', ci_qty = 1\<rparr>,
                           \<lparr>ci_productId = ''A'', ci_qty = 99\<rparr>]],
      orders = []\<rparr>"

definition order2 :: order_row where
  "order2 =
     \<lparr>o_id = ''3f9a1c77'', o_code = ''ORD-20240117-002'', o_queueNumber = ''002'',
      o_diningType = TAKE_AWAY, o_status = AWAITING_PAYMENT,
      o_subtotal = 25000, o_discount = 0, o_tax = 0, o_total = 25000, o_customerId = ''u1'',
      o_items = [\<lparr>oi_productId = ''A'', oi_qty = 1, oi_price = 25000, oi_total = 25000\<rparr>],
      o_createdAt = noon, o_closedAt = None\<rparr>"

definition db_race_seen :: db where
  "db_race_seen =
     \<lparr>products = menu,
      carts = [''u1'' \<mapsto> [\<lparr>ci_productId = ''A'', ci_qty = 1\<rparr>],
               ''u2'' \<mapsto> [\<lparr>ci_productId = ''B'', ci_qty = 1\<rparr>]],
      orders = [order1]\<rparr>"

definition db_race_now :: db where
  "db_race_now =
     \<lparr>products = menu,
      carts = [''u2'' \<mapsto> [\<lparr>ci_productId = ''B'', ci_qty = 1\<rparr>]],
      orders = [order1, order2]\<rparr>"

definition lines_u2 :: "snap_line list" where
  "lines_u2 =
     [\<lparr>sl_productId = ''B'', sl_name = ''Es Teh'', sl_price = 15000, sl_stock = 5,
       sl_isActive = True, sl_qty = 1\<rparr>]"

definition till3 :: checkout_ctx where
  "till3 = \<lparr>ctx_now = noon, ctx_newId = ''a46e20d5'', ctx_serverKey = None,
           ctx_isProduction = False, ctx_gateway = (\<lambda>production key params. None)\<rparr>"

subsection \<open>The last three portions, and a busy day\<close>

definition db_last3 :: db where
  "db_last3 =
     \<lparr>products = [''A'' \<mapsto> \<lparr>p_name = ''Nasi Goreng'', p_price = 25000, p_stock = 3, p_isActive = True\<rparr>],
      carts = [''u1'' \<mapsto> [\<lparr>ci_productId = ''A'', ci_qty = 3\<rparr>],
               ''u2'' \<mapsto> [\<lparr>ci_productId = ''A'', ci_qty = 3\<rparr>]],
      orders = []\<rparr>"

definition busy_day :: "order_row list" where
  "busy_day =
     map (\<lambda>i. order1\<lparr>o_id := ''order-'' @ string_of_nat (i + 1),
                      o_code := makeOrderCode morning (padStart 3 (CHR ''0'') (string_of_nat (i + 1))),
                      o_queueNumber := padStart 3 (CHR ''0'') (string_of_nat (i + 1))\<rparr>)
       [0..<999]"

subsection \<open>A very expensive dish\<close>

definition db_big :: db where
  "db_big =
     \<lparr>products = [''G'' \<mapsto> \<lparr>p_name = ''Emas'', p_price = 9007199254740991, p_stock = 5,
                                p_isActive = True\<rparr>],
      carts = [''u1'' \<mapsto> [\<lparr>ci_productId = ''G'', ci_qty = 3\<rparr>]],
      orders = []\<rparr>"

definition lines_big :: "snap_line list" where
  "lines_big =
     [\<lparr>sl_productId = ''G'', sl_name = ''Emas'', sl_price = 9007199254740991, sl_stock = 5,
       sl_isActive = True, sl_qty = 3\<rparr>]"

subsection \<open>What may happen to a placed order\<close>

text \<open>
  After a checkout, the catalogue price of a product may be set to a new value and
  orders may be confirmed, in any order and any number of times. A confirmation is
  the route, run alone.
\<close>

text \<open>
  Modelled from the spec: the catalogue's change of a product's price. Catalogue
  management is outside the routes modelled here; by the specification's data model it
  mutates the product's own fields, so the new unit price replaces the old one in the
  product row and nothing else changes.
\<close>

definition set_price :: "string \<Rightarrow> int \<Rightarrow> db \<Rightarrow> db" where
  "set_price pid v db =
     (case products db pid of
        None \<Rightarrow> db
      | Some p \<Rightarrow> db\<lparr>products := (products db)(pid \<mapsto> p\<lparr>p_price := v\<rparr>)\<rparr>)"

datatype event = Reprice string int | Confirm jsdate string

fun apply_event :: "event \<Rightarrow> db \<Rightarrow> db" where
  "apply_event (Reprice pid v) db = set_price pid v db"
| "apply_event (Confirm now code) db = fst (POST_confirm now code db db)"

fun replay :: "event list \<Rightarrow> db \<Rightarrow> db" where
  "replay [] db = db"
| "replay (e # es) db = replay es (apply_event e db)"

text \<open>The line of the order detail that a joined cart line gives rise to.\<close>

definition receipt_line :: "snap_line \<Rightarrow> order_detail_item" where
  "receipt_line it =
     \<lparr>productName = sl_name it, d_qty = sl_qty it, d_price = sl_price it,
      d_total = js_mul (sl_price it) (sl_qty it)\<rparr>"

text \<open>
  The order with code \<open>code\<close> of customer \<open>uid\<close> still has the total and the lines it was
  placed with, and the products of the lines still have their names.
\<close>

definition receipt_intact :: "string \<Rightarrow> string \<Rightarrow> int \<Rightarrow> snap_line list \<Rightarrow> db \<Rightarrow> bool" where
  "receipt_intact code uid amount lines s =
     ((case find (\<lambda>x. o_code x = code \<and> o_customerId x = uid) (orders s) of
         None \<Rightarrow> False
       | Some ord \<Rightarrow> o_code ord = code \<and> o_total ord = amount \<and> o_items ord = order_lines lines)
      \<and> list_all (\<lambda>it. map_option p_name (products s (sl_productId it)) = Some (sl_name it)) lines)"

subsection \<open>Well-formed dates\<close>

definition wf_time :: "jsdate \<Rightarrow> bool" where
  "wf_time d = (hours d < 24 \<and> minutes d < 60 \<and> seconds d < 60 \<and> millis d < 1000)"

definition same_date :: "jsdate \<Rightarrow> jsdate \<Rightarrow> bool" where
  "same_date a b = (year a = year b \<and> month a = month b \<and> day a = day b)"

definition digits :: "string \<Rightarrow> bool" where
  "digits s = list_all (\<lambda>c. c \<in> set ''0123456789'') s"

section \<open>Properties\<close>

subsection \<open>JavaScript arithmetic\<close>

text \<open>Below \<open>2^53\<close> nothing is rounded, and a rounded value is not rounded again.\<close>

lemma ulp_of_small: "m < 9007199254740992 \<Longrightarrow> ulp_of m = 1"
  by (simp add: ulp_of.simps [of m])

lemma ulp_of_big: "9007199254740992 \<le> m \<Longrightarrow> ulp_of m = 2 * ulp_of (m div 2)"
  by (simp add: ulp_of.simps [of m])

lemma round_nat_small: "m < 9007199254740992 \<Longrightarrow> round_nat m = m"
  by (simp add: round_nat_def ulp_of_small)

lemma js_round_small: "\<bar>n\<bar> < 9007199254740992 \<Longrightarrow> js_round n = n"
  by (simp add: js_round_def round_nat_small)

lemma ulp_of_scaled:
  "4503599627370496 \<le> q \<Longrightarrow> q < 9007199254740992 \<Longrightarrow> ulp_of (q * 2 ^ k) = 2 ^ k"
proof (induction k)
  case 0
  then show ?case by (simp add: ulp_of_small)
next
  case (Suc k)
  have "q \<le> q * 2 ^ k" by simp
  then have "2 * q \<le> 2 * (q * 2 ^ k)" by linarith
  moreover have "q * 2 ^ Suc k = 2 * (q * 2 ^ k)" by simp
  ultimately have "9007199254740992 \<le> q * 2 ^ Suc k" using Suc.prems by linarith
  then have "ulp_of (q * 2 ^ Suc k) = 2 * ulp_of ((q * 2 ^ Suc k) div 2)"
    by (rule ulp_of_big)
  also have "(q * 2 ^ Suc k) div 2 = q * 2 ^ k" by simp
  finally show ?case using Suc by simp
qed

lemma ulp_of_shape:
  "\<exists>k. ulp_of m = 2 ^ k
     \<and> (m < 9007199254740992 \<or>
         (4503599627370496 \<le> m div 2 ^ k \<and> m div 2 ^ k < 9007199254740992))"
proof (induction m rule: ulp_of.induct)
  case (1 m)
  show ?case
  proof (cases "m < 9007199254740992")
    case True
    then have "ulp_of m = 2 ^ 0" by (simp add: ulp_of_small)
    with True show ?thesis by blast
  next
    case False
    with "1" obtain k where k: "ulp_of (m div 2) = 2 ^ k"
      and s: "m div 2 < 9007199254740992 \<or>
         (4503599627370496 \<le> m div 2 div 2 ^ k \<and> m div 2 div 2 ^ k < 9007199254740992)"
      by blast
    from False have u: "ulp_of m = 2 * ulp_of (m div 2)" by (simp add: ulp_of_big)
    show ?thesis
    proof (cases "m div 2 < 9007199254740992")
      case True
      then have "ulp_of (m div 2) = 1" by (rule ulp_of_small)
      with u have "ulp_of m = 2 ^ 1" by simp
      moreover from False have "4503599627370496 \<le> m div 2 ^ 1" by simp
      moreover from True have "m div 2 ^ 1 < 9007199254740992" by simp
      ultimately show ?thesis by blast
    next
      case big: False
      with s have "4503599627370496 \<le> m div 2 div 2 ^ k"
        and "m div 2 div 2 ^ k < 9007199254740992" by simp_all
      moreover have "m div 2 div 2 ^ k = m div 2 ^ Suc k"
        by (simp add: div_mult2_eq)
      moreover from u k have "ulp_of m = 2 ^ Suc k" by simp
      ultimately show ?thesis by metis
    qed
  qed
qed

lemma round_nat_scaled:
  assumes "4503599627370496 \<le> q" and "q \<le> 9007199254740992"
  shows "round_nat (q * 2 ^ k) = q * 2 ^ k"
proof (cases "q < 9007199254740992")
  case True
  with assms(1) have "ulp_of (q * 2 ^ k) = 2 ^ k" by (rule ulp_of_scaled)
  then show ?thesis by (simp add: round_nat_def)
next
  case False
  with assms(2) have q: "q = 9007199254740992" by simp
  have "ulp_of (4503599627370496 * 2 ^ Suc k) = 2 ^ Suc k"
    by (rule ulp_of_scaled) simp_all
  moreover have "q * 2 ^ k = 4503599627370496 * 2 ^ Suc k" by (simp add: q)
  ultimately show ?thesis by (simp add: round_nat_def)
qed

lemma round_nat_idem: "round_nat (round_nat m) = round_nat m"
proof -
  obtain k where k: "ulp_of m = 2 ^ k"
    and s: "m < 9007199254740992 \<or>
         (4503599627370496 \<le> m div 2 ^ k \<and> m div 2 ^ k < 9007199254740992)"
    using ulp_of_shape [of m] by blast
  show ?thesis
  proof (cases "m < 9007199254740992")
    case True
    then show ?thesis by (simp add: round_nat_small)
  next
    case False
    with s have lo: "4503599627370496 \<le> m div 2 ^ k" and hi: "m div 2 ^ k < 9007199254740992"
      by simp_all
    have "round_nat m = (m div 2 ^ k) * 2 ^ k \<or> round_nat m = (m div 2 ^ k + 1) * 2 ^ k"
      by (simp add: round_nat_def k Let_def)
    then show ?thesis
    proof
      assume e: "round_nat m = (m div 2 ^ k) * 2 ^ k"
      from lo hi have "round_nat ((m div 2 ^ k) * 2 ^ k) = (m div 2 ^ k) * 2 ^ k"
        by (intro round_nat_scaled) simp_all
      with e show ?thesis by simp
    next
      assume e: "round_nat m = (m div 2 ^ k + 1) * 2 ^ k"
      from lo hi have "round_nat ((m div 2 ^ k + 1) * 2 ^ k) = (m div 2 ^ k + 1) * 2 ^ k"
        by (intro round_nat_scaled) simp_all
      with e show ?thesis by simp
    qed
  qed
qed

lemma js_round_idem: "js_round (js_round n) = js_round n"
proof (cases "n < 0")
  case True
  then show ?thesis
    by (cases "round_nat (nat (- n)) = 0") (simp_all add: js_round_def round_nat_idem round_nat_small)
next
  case False
  then show ?thesis by (simp add: js_round_def round_nat_idem)
qed

lemmas js_eval = js_add_def js_sub_def js_mul_def js_round_small

lemma js_round_cart_subtotal: "js_round (cart_subtotal lines) = cart_subtotal lines"
proof -
  have "js_round a = a \<Longrightarrow>
      js_round (foldl (\<lambda>s it. js_add s (js_mul (sl_price it) (sl_qty it))) a lines)
        = foldl (\<lambda>s it. js_add s (js_mul (sl_price it) (sl_qty it))) a lines" for a
    by (induction lines arbitrary: a) (simp_all add: js_add_def js_round_idem)
  moreover have "js_round 0 = 0" by (simp add: js_round_small)
  ultimately show ?thesis by (simp add: cart_subtotal_def)
qed

lemma order_total_eq: "js_add (js_sub (cart_subtotal lines) 0) 0 = cart_subtotal lines"
  by (simp add: js_add_def js_sub_def js_round_cart_subtotal)

subsection \<open>Evaluating codes and dates\<close>

lemma replicate_2: "replicate 2 c = [c, c]"
  by (simp add: numeral_2_eq_2)

lemma replicate_3: "replicate 3 c = [c, c, c]"
  by (simp add: numeral_3_eq_3)

lemmas render = makeOrderCode_def getTodayQueueNumber_def padStart_def string_of_nat.simps
  digit_char_def replicate_2 replicate_3

lemmas same_day = createdToday_def date_le_def date_key_def startOfDay_def endOfDay_def

lemmas handlers = POST_checkout_def join_lines_def join_line_def checkout_tx_def order_create_def
  cart_delete_def order_lines_def cart_subtotal_def payment_step_def POST_confirm_def confirm_tx_def
  order_update_paid_def mark_paid_def js_eval

subsection \<open>Clearing the cart\<close>

lemma DELETE_cart_eq:
  "DELETE_cart (Some uid) db = (db\<lparr>carts := (carts db)(uid := None)\<rparr>, Response 200 OkBody)"
proof (cases "carts db uid")
  case None
  then have "(carts db)(uid := None) = carts db" by (simp add: fun_upd_idem)
  then show ?thesis using None by (simp add: DELETE_cart_def cart_delete_def)
next
  case (Some items)
  then show ?thesis by (simp add: DELETE_cart_def cart_delete_def)
qed

text \<open>
  C10. For a user with a session, \<^verbatim>\<open>DELETE /api/cart\<close> answers 200 \<^verbatim>\<open>{ ok: true }\<close>
  whether or not the user has a cart, and leaves the store with no cart for that user
  and everything else as it was; a second call answers the same and changes nothing.
\<close>

theorem DELETE_cart_always_ok:
  "snd (DELETE_cart (Some uid) db) = Response 200 OkBody
   \<and> fst (DELETE_cart (Some uid) db) = db\<lparr>carts := (carts db)(uid := None)\<rparr>
   \<and> DELETE_cart (Some uid) (fst (DELETE_cart (Some uid) db))
       = (fst (DELETE_cart (Some uid) db), Response 200 OkBody)"
  by (simp add: DELETE_cart_eq)

subsection \<open>Payment confirmation, one request after the other\<close>

lemma decrement_stock_Some:
  "set (map oi_productId its) \<subseteq> dom ps \<Longrightarrow> decrement_stock its ps = Some (take_stock its ps)"
proof (induction its arbitrary: ps)
  case Nil
  show ?case by (simp add: take_stock_def ordered_qty_def fun_eq_iff option.map_ident)
next
  case (Cons it rest)
  then obtain p where p: "ps (oi_productId it) = Some p" by auto
  let ?ps1 = "ps(oi_productId it \<mapsto> p\<lparr>p_stock := p_stock p - oi_qty it\<rparr>)"
  have "set (map oi_productId rest) \<subseteq> dom ?ps1" using Cons.prems by auto
  then have "decrement_stock rest ?ps1 = Some (take_stock rest ?ps1)" by (rule Cons.IH)
  moreover have "take_stock rest ?ps1 = take_stock (it # rest) ps"
    by (auto simp: take_stock_def ordered_qty_def fun_eq_iff p)
  ultimately show ?case by (simp add: p)
qed

lemma find_map_mark_paid:
  "find (\<lambda>ord. o_code ord = code) (map (mark_paid oid now) os)
     = map_option (mark_paid oid now) (find (\<lambda>ord. o_code ord = code) os)"
  by (induction os) (auto simp: mark_paid_def)

lemma find_Some_id_mem:
  "find P os = Some ord \<Longrightarrow> o_id ord \<in> o_id ` set os"
  by (auto simp: find_Some_iff)

text \<open>
  C1. Let \<open>code\<close> be the code of an order awaiting payment whose lines reference
  products of the catalogue. The first \<^verbatim>\<open>POST /orders/{code}\<close> answers
  \<^verbatim>\<open>{ ok: true }\<close>, takes from every product the quantity the order's lines hold of
  it, and marks the order \<open>PAID\<close> with the closure time; a second confirmation, run on
  the resulting store, answers \<^verbatim>\<open>{ ok: true, already: true }\<close> and returns that store
  unchanged, so the stock has gone down by one quantity per line, not two.
\<close>

theorem confirm_idempotent:
  assumes "find (\<lambda>x. o_code x = code) (orders db) = Some ord"
    and "o_status ord = AWAITING_PAYMENT"
    and "set (map oi_productId (o_items ord)) \<subseteq> dom (products db)"
  shows "\<exists>db1. POST_confirm now code db db = (db1, Response 200 OkBody)
      \<and> products db1 = take_stock (o_items ord) (products db)
      \<and> carts db1 = carts db
      \<and> orders db1 = map (mark_paid (o_id ord) now) (orders db)
      \<and> find (\<lambda>x. o_code x = code) (orders db1)
          = Some (ord\<lparr>o_status := PAID, o_closedAt := Some now\<rparr>)
      \<and> POST_confirm now2 code db1 db1 = (db1, Response 200 OkAlreadyBody)"
proof -
  let ?db1 = "db\<lparr>products := take_stock (o_items ord) (products db),
                  orders := map (mark_paid (o_id ord) now) (orders db)\<rparr>"
  have tx: "confirm_tx now ord db = Some ?db1"
    using assms(1) assms(3)
    by (simp add: confirm_tx_def decrement_stock_Some order_update_paid_def
        find_Some_id_mem[OF assms(1)])
  have first: "POST_confirm now code db db = (?db1, Response 200 OkBody)"
    using assms(1,2) tx by (simp add: POST_confirm_def)
  have found: "find (\<lambda>x. o_code x = code) (orders ?db1)
       = Some (ord\<lparr>o_status := PAID, o_closedAt := Some now\<rparr>)"
    using assms(1) by (simp add: find_map_mark_paid mark_paid_def)
  have second: "POST_confirm now2 code ?db1 ?db1 = (?db1, Response 200 OkAlreadyBody)"
    unfolding POST_confirm_def found by simp
  show ?thesis
    using first found second by simp
qed

theorem confirm_idempotent_witness:
  "find (\<lambda>x. o_code x = ''ORD-20240117-001'') (orders db_awaiting) = Some order1
   \<and> o_status order1 = AWAITING_PAYMENT
   \<and> set (map oi_productId (o_items order1)) \<subseteq> dom (products db_awaiting)
   \<and> (\<exists>db1. POST_confirm noon ''ORD-20240117-001'' db_awaiting db_awaiting
              = (db1, Response 200 OkBody)
        \<and> map_option p_stock (products db1 ''A'') = Some 8
        \<and> map_option p_stock (products db1 ''B'') = Some 4
        \<and> map_option o_status (find (\<lambda>x. o_code x = ''ORD-20240117-001'') (orders db1)) = Some PAID
        \<and> map_option o_closedAt (find (\<lambda>x. o_code x = ''ORD-20240117-001'') (orders db1))
            = Some (Some noon)
        \<and> POST_confirm noon ''ORD-20240117-001'' db1 db1 = (db1, Response 200 OkAlreadyBody))"
proof -
  have h1: "find (\<lambda>x. o_code x = ''ORD-20240117-001'') (orders db_awaiting) = Some order1"
    by (simp add: db_awaiting_def order1_def)
  have h2: "o_status order1 = AWAITING_PAYMENT"
    by (simp add: order1_def)
  have h3: "set (map oi_productId (o_items order1)) \<subseteq> dom (products db_awaiting)"
    by (simp add: db_awaiting_def order1_def menu_def)
  obtain db1 where
    a: "POST_confirm noon ''ORD-20240117-001'' db_awaiting db_awaiting = (db1, Response 200 OkBody)"
    and b: "products db1 = take_stock (o_items order1) (products db_awaiting)"
    and c: "find (\<lambda>x. o_code x = ''ORD-20240117-001'') (orders db1)
              = Some (order1\<lparr>o_status := PAID, o_closedAt := Some noon\<rparr>)"
    and d: "POST_confirm noon ''ORD-20240117-001'' db1 db1 = (db1, Response 200 OkAlreadyBody)"
    using confirm_idempotent [OF h1 h2 h3, of noon noon] by blast
  have sA: "map_option p_stock (products db1 ''A'') = Some 8"
    unfolding b by (simp add: take_stock_def ordered_qty_def db_awaiting_def order1_def menu_def)
  have sB: "map_option p_stock (products db1 ''B'') = Some 4"
    unfolding b by (simp add: take_stock_def ordered_qty_def db_awaiting_def order1_def menu_def)
  show ?thesis
    using h1 h2 h3 a c d sA sB by auto
qed

subsection \<open>Payment confirmation on any pair of states\<close>

lemma POST_confirm_pays:
  assumes "find (\<lambda>x. o_code x = code) (orders seen) = Some ord"
    and "o_status ord \<noteq> PAID"
    and "set (map oi_productId (o_items ord)) \<subseteq> dom (products db)"
    and "o_id ord \<in> o_id ` set (orders db)"
  shows "POST_confirm now code seen db
     = (db\<lparr>products := take_stock (o_items ord) (products db),
           orders := map (mark_paid (o_id ord) now) (orders db)\<rparr>, Response 200 OkBody)"
  using assms
  by (simp add: POST_confirm_def confirm_tx_def decrement_stock_Some order_update_paid_def)

subsection \<open>Two confirmations that overlap\<close>

text \<open>
  C9. Two confirmations of order \<open>ORD-20240117-001\<close> (2 of A, 1 of B) overlap: both
  read the order, still awaiting payment, before either transaction runs; then the two
  transactions run one after the other. Both answer \<^verbatim>\<open>{ ok: true }\<close>, and the stock of
  A goes from 10 to 6 and that of B from 5 to 3: decremented twice.
\<close>

theorem overlapping_confirmations_decrement_twice:
  "(let first = POST_confirm noon ''ORD-20240117-001'' db_awaiting db_awaiting;
        second = POST_confirm noon ''ORD-20240117-001'' db_awaiting (fst first)
    in snd first = Response 200 OkBody
       \<and> snd second = Response 200 OkBody
       \<and> map_option p_stock (products db_awaiting ''A'') = Some 10
       \<and> map_option p_stock (products (fst second) ''A'') = Some 6
       \<and> map_option p_stock (products db_awaiting ''B'') = Some 5
       \<and> map_option p_stock (products (fst second) ''B'') = Some 3)"
proof -
  have f: "find (\<lambda>x. o_code x = ''ORD-20240117-001'') (orders db_awaiting) = Some order1"
    by (simp add: db_awaiting_def order1_def)
  have s: "o_status order1 \<noteq> PAID" by (simp add: order1_def)
  let ?db1 = "db_awaiting\<lparr>products := take_stock (o_items order1) (products db_awaiting),
           orders := map (mark_paid (o_id order1) noon) (orders db_awaiting)\<rparr>"
  have p0: "set (map oi_productId (o_items order1)) \<subseteq> dom (products db_awaiting)"
    by (simp add: db_awaiting_def order1_def menu_def)
  have i0: "o_id order1 \<in> o_id ` set (orders db_awaiting)"
    by (simp add: db_awaiting_def)
  have first: "POST_confirm noon ''ORD-20240117-001'' db_awaiting db_awaiting
      = (?db1, Response 200 OkBody)"
    by (rule POST_confirm_pays [OF f s p0 i0])
  have p1: "set (map oi_productId (o_items order1)) \<subseteq> dom (products ?db1)"
    by (simp add: db_awaiting_def order1_def menu_def take_stock_def dom_def)
  have i1: "o_id order1 \<in> o_id ` set (orders ?db1)"
    by (simp add: db_awaiting_def mark_paid_def)
  have second: "POST_confirm noon ''ORD-20240117-001'' db_awaiting ?db1
      = (?db1\<lparr>products := take_stock (o_items order1) (products ?db1),
           orders := map (mark_paid (o_id order1) noon) (orders ?db1)\<rparr>, Response 200 OkBody)"
    by (rule POST_confirm_pays [OF f s p1 i1])
  show ?thesis
    unfolding Let_def first fst_conv snd_conv second
    by (simp add: take_stock_def ordered_qty_def db_awaiting_def order1_def menu_def)
qed

subsection \<open>The checkout route, step by step\<close>

lemma validate_append:
  "list_all line_ok pre \<Longrightarrow> validate (pre @ rest) = validate rest"
  by (induction pre) (auto simp: line_ok_def)

lemma validate_ok: "list_all line_ok lines \<Longrightarrow> validate lines = None"
  using validate_append [of lines "[]"] by simp

lemma cart_subtotal_exact:
  assumes "list_all (\<lambda>it. 0 \<le> sl_price it \<and> 0 \<le> sl_qty it) lines"
    and "(\<Sum>it\<leftarrow>lines. sl_price it * sl_qty it) \<le> 9007199254740991"
  shows "cart_subtotal lines = (\<Sum>it\<leftarrow>lines. sl_price it * sl_qty it)"
proof -
  have "0 \<le> a \<Longrightarrow> list_all (\<lambda>it. 0 \<le> sl_price it \<and> 0 \<le> sl_qty it) lines \<Longrightarrow>
      a + (\<Sum>it\<leftarrow>lines. sl_price it * sl_qty it) \<le> 9007199254740991 \<Longrightarrow>
      foldl (\<lambda>s it. js_add s (js_mul (sl_price it) (sl_qty it))) a lines
        = a + (\<Sum>it\<leftarrow>lines. sl_price it * sl_qty it)" for a
  proof (induction lines arbitrary: a)
    case Nil
    then show ?case by simp
  next
    case (Cons it rest)
    let ?t = "sl_price it * sl_qty it"
    from Cons.prems(2) have t: "0 \<le> ?t" by simp
    from Cons.prems(2) have "0 \<le> (\<Sum>it\<leftarrow>rest. sl_price it * sl_qty it)"
      by (intro sum_list_nonneg) (auto simp: list_all_iff)
    with Cons.prems(1,3) t have b: "a + ?t \<le> 9007199254740991" by simp
    with Cons.prems(1) t have m: "js_mul (sl_price it) (sl_qty it) = ?t"
      by (simp add: js_mul_def js_round_small)
    from b Cons.prems(1) t have "js_add a ?t = a + ?t"
      by (simp add: js_add_def js_round_small)
    moreover have "foldl (\<lambda>s it. js_add s (js_mul (sl_price it) (sl_qty it))) (a + ?t) rest
        = a + ?t + (\<Sum>it\<leftarrow>rest. sl_price it * sl_qty it)"
      using Cons.prems t by (intro Cons.IH) simp_all
    ultimately show ?case by (simp add: m)
  qed
  from this [of 0] assms show ?thesis by (simp add: cart_subtotal_def)
qed

lemma checkout_tx_commits:
  assumes "o_code (placed_order ctx uid dt lines seen) \<notin> o_code ` set (orders db)"
    and "ctx_newId ctx \<notin> o_id ` set (orders db)"
    and "carts db uid = Some items'"
  shows "checkout_tx ctx uid dt lines (cart_subtotal lines) 0 0 (js_add (js_sub (cart_subtotal lines) 0) 0) seen db
     = Some (db\<lparr>carts := (carts db)(uid := None),
                orders := orders db @ [placed_order ctx uid dt lines seen]\<rparr>,
             placed_order ctx uid dt lines seen)"
  using assms
  by (simp add: checkout_tx_def Let_def order_create_def cart_delete_def placed_order_def
      order_total_eq)

lemma checkout_tx_aborts:
  assumes "o_code (placed_order ctx uid dt lines seen) \<in> o_code ` set (orders db)
     \<or> ctx_newId ctx \<in> o_id ` set (orders db) \<or> carts db uid = None"
  shows "checkout_tx ctx uid dt lines (cart_subtotal lines) 0 0 (js_add (js_sub (cart_subtotal lines) 0) 0) seen db = None"
  using assms
  by (auto simp add: checkout_tx_def Let_def order_create_def cart_delete_def placed_order_def
      split: option.splits)

lemma POST_checkout_validated:
  assumes "uid \<noteq> []"
    and "carts seen uid = Some items"
    and "join_lines (products seen) items = Some lines"
    and "lines \<noteq> []"
    and "list_all line_ok lines"
  shows "POST_checkout ctx (Some uid) (Some (dt, pc)) seen db =
     (case checkout_tx ctx uid dt lines (cart_subtotal lines) 0 0 (js_add (js_sub (cart_subtotal lines) 0) 0) seen db of
        None \<Rightarrow> (db, server_error)
      | Some (db', created) \<Rightarrow> (db', payment_step ctx pc created))"
  using assms by (simp add: POST_checkout_def validate_ok Let_def)

lemma POST_checkout_commits:
  assumes "uid \<noteq> []"
    and "carts seen uid = Some items"
    and "join_lines (products seen) items = Some lines"
    and "lines \<noteq> []"
    and "list_all line_ok lines"
    and "o_code (placed_order ctx uid dt lines seen) \<notin> o_code ` set (orders db)"
    and "ctx_newId ctx \<notin> o_id ` set (orders db)"
    and "carts db uid = Some items'"
  shows "POST_checkout ctx (Some uid) (Some (dt, pc)) seen db =
     (db\<lparr>carts := (carts db)(uid := None),
         orders := orders db @ [placed_order ctx uid dt lines seen]\<rparr>,
      payment_step ctx pc (placed_order ctx uid dt lines seen))"
  unfolding POST_checkout_validated [OF assms(1-5)]
  by (simp only: checkout_tx_commits [OF assms(6-8)] option.case prod.case)

lemma POST_checkout_aborts:
  assumes "uid \<noteq> []"
    and "carts seen uid = Some items"
    and "join_lines (products seen) items = Some lines"
    and "lines \<noteq> []"
    and "list_all line_ok lines"
    and "o_code (placed_order ctx uid dt lines seen) \<in> o_code ` set (orders db)
     \<or> ctx_newId ctx \<in> o_id ` set (orders db) \<or> carts db uid = None"
  shows "POST_checkout ctx (Some uid) (Some (dt, pc)) seen db = (db, server_error)"
  unfolding POST_checkout_validated [OF assms(1-5)]
  by (simp only: checkout_tx_aborts [OF assms(6)] option.case)

lemma scenario_join: "join_lines (products db_scenario) 
    [\<lparr>ci_productId = ''A'', ci_qty = 2\<rparr>, \<lparr>ci_productId = ''B'', ci_qty = 1\<rparr>] = Some lines_scenario"
  by (simp add: join_lines_def join_line_def db_scenario_def menu_def lines_scenario_def)

lemma scenario_ok: "list_all line_ok lines_scenario"
  by (simp add: lines_scenario_def line_ok_def)

lemma scenario_code: "o_code (placed_order ctx ''u1'' dt lines_scenario db_scenario)
     = makeOrderCode (ctx_now ctx) ''001''"
  by (simp add: placed_order_def db_scenario_def render)

lemma noon_code: "makeOrderCode noon q = ''ORD-20240117-'' @ q"
  by (simp add: render noon_def)

subsection \<open>Checkout: failed preconditions\<close>

text \<open>
  C3. A checkout by a user with a session and a valid body, whose cart is absent or
  has no line, answers 409 \<^verbatim>\<open>Keranjang kosong.\<close>. Otherwise the joined lines are
  checked in order and the first line that fails decides the answer, whatever follows
  it: 409 \<^verbatim>\<open>Produk ... tidak tersedia.\<close> when its product is not active, 409
  \<^verbatim>\<open>Stok ... tidak mencukupi.\<close> when it is active and the quantity exceeds the stock
  (stock 3, quantity 4). In each case the store is returned as it was: no order, no
  order line, and the cart is still there.
\<close>

theorem checkout_precondition_failures:
  assumes "uid \<noteq> []"
  shows "(carts seen uid = None \<or> carts seen uid = Some [] \<longrightarrow>
            POST_checkout ctx (Some uid) (Some (dt, pc)) seen db
              = (db, Response 409 (ErrorBody ''Keranjang kosong.'')))
     \<and> (\<forall>items pre it post.
           carts seen uid = Some items
           \<and> join_lines (products seen) items = Some (pre @ it # post)
           \<and> list_all line_ok pre \<longrightarrow>
             (\<not> sl_isActive it \<longrightarrow>
                POST_checkout ctx (Some uid) (Some (dt, pc)) seen db
                  = (db, Response 409 (ErrorBody (''Produk '' @ sl_name it @ '' tidak tersedia.''))))
           \<and> (sl_isActive it \<and> sl_stock it < sl_qty it \<longrightarrow>
                POST_checkout ctx (Some uid) (Some (dt, pc)) seen db
                  = (db, Response 409 (ErrorBody (''Stok '' @ sl_name it @ '' tidak mencukupi.'')))))"
proof (intro conjI allI impI)
  assume "carts seen uid = None \<or> carts seen uid = Some []"
  then show "POST_checkout ctx (Some uid) (Some (dt, pc)) seen db
              = (db, Response 409 (ErrorBody ''Keranjang kosong.''))"
    using assms by (auto simp: POST_checkout_def join_lines_def empty_cart_def)
next
  fix items pre it post
  assume h: "carts seen uid = Some items
           \<and> join_lines (products seen) items = Some (pre @ it # post)
           \<and> list_all line_ok pre"
  assume "\<not> sl_isActive it"
  then have "validate (pre @ it # post) = Some (unavailable (sl_name it))"
    using h by (simp add: validate_append)
  then show "POST_checkout ctx (Some uid) (Some (dt, pc)) seen db
                  = (db, Response 409 (ErrorBody (''Produk '' @ sl_name it @ '' tidak tersedia.'')))"
    using assms h by (simp add: POST_checkout_def unavailable_def)
next
  fix items pre it post
  assume h: "carts seen uid = Some items
           \<and> join_lines (products seen) items = Some (pre @ it # post)
           \<and> list_all line_ok pre"
  assume "sl_isActive it \<and> sl_stock it < sl_qty it"
  then have "validate (pre @ it # post) = Some (insufficient (sl_name it))"
    using h by (simp add: validate_append)
  then show "POST_checkout ctx (Some uid) (Some (dt, pc)) seen db
                  = (db, Response 409 (ErrorBody (''Stok '' @ sl_name it @ '' tidak mencukupi.'')))"
    using assms h by (simp add: POST_checkout_def insufficient_def)
qed

theorem checkout_precondition_failures_witness:
  "POST_checkout till (Some ''u1'') (Some (DINE_IN, CASH)) db_no_cart db_no_cart
     = (db_no_cart, Response 409 (ErrorBody ''Keranjang kosong.''))
   \<and> POST_checkout till (Some ''u1'') (Some (DINE_IN, CASH)) db_inactive db_inactive
     = (db_inactive, Response 409 (ErrorBody ''Produk Sate tidak tersedia.''))
   \<and> POST_checkout till (Some ''u1'') (Some (DINE_IN, CASH)) db_short db_short
     = (db_short, Response 409 (ErrorBody ''Stok Nasi Goreng tidak mencukupi.''))"
proof -
  have u: "''u1'' \<noteq> []" by simp
  let ?B = "\<lparr>sl_productId = ''B'', sl_name = ''Es Teh'', sl_price = 15000, sl_stock = 5,
             sl_isActive = True, sl_qty = 1\<rparr>"
  let ?C = "\<lparr>sl_productId = ''C'', sl_name = ''Sate'', sl_price = 30000, sl_stock = 7,
             sl_isActive = False, sl_qty = 1\<rparr>"
  let ?A99 = "\<lparr>sl_productId = ''A'', sl_name = ''Nasi Goreng'', sl_price = 25000, sl_stock = 10,
             sl_isActive = True, sl_qty = 99\<rparr>"
  let ?A4 = "\<lparr>sl_productId = ''A'', sl_name = ''Nasi Goreng'', sl_price = 25000, sl_stock = 3,
             sl_isActive = True, sl_qty = 4\<rparr>"
  have none: "carts db_no_cart ''u1'' = None \<or> carts db_no_cart ''u1'' = Some []"
    by (simp add: db_no_cart_def)
  have inactive: "carts db_inactive ''u1''
        = Some [\<lparr>ci_productId = ''B'', ci_qty = 1\<rparr>, \<lparr>ci_productId = ''C'', ci_qty = 1\<rparr>,
                \<lparr>ci_productId = ''A'', ci_qty = 99\<rparr>]
      \<and> join_lines (products db_inactive)
          [\<lparr>ci_productId = ''B'', ci_qty = 1\<rparr>, \<lparr>ci_productId = ''C'', ci_qty = 1\<rparr>,
           \<lparr>ci_productId = ''A'', ci_qty = 99\<rparr>] = Some ([?B] @ ?C # [?A99])
      \<and> list_all line_ok [?B]"
    by (simp add: db_inactive_def menu_def join_lines_def join_line_def line_ok_def)
  have short: "carts db_short ''u1'' = Some [\<lparr>ci_productId = ''A'', ci_qty = 4\<rparr>]
      \<and> join_lines (products db_short) [\<lparr>ci_productId = ''A'', ci_qty = 4\<rparr>] = Some ([] @ ?A4 # [])
      \<and> list_all line_ok []"
    by (simp add: db_short_def join_lines_def join_line_def)
  note t1 = checkout_precondition_failures [OF u, of db_no_cart till DINE_IN CASH db_no_cart]
  note t2 = checkout_precondition_failures [OF u, of db_inactive till DINE_IN CASH db_inactive]
  note t3 = checkout_precondition_failures [OF u, of db_short till DINE_IN CASH db_short]
  have r1: "POST_checkout till (Some ''u1'') (Some (DINE_IN, CASH)) db_no_cart db_no_cart
     = (db_no_cart, Response 409 (ErrorBody ''Keranjang kosong.''))"
    using t1 none by blast
  have "\<not> sl_isActive ?C" by simp
  with t2 inactive
  have "POST_checkout till (Some ''u1'') (Some (DINE_IN, CASH)) db_inactive db_inactive
     = (db_inactive, Response 409 (ErrorBody (''Produk '' @ sl_name ?C @ '' tidak tersedia.'')))"
    by blast
  then have r2: "POST_checkout till (Some ''u1'') (Some (DINE_IN, CASH)) db_inactive db_inactive
     = (db_inactive, Response 409 (ErrorBody ''Produk Sate tidak tersedia.''))"
    by simp
  have "sl_isActive ?A4 \<and> sl_stock ?A4 < sl_qty ?A4" by simp
  with t3 short
  have "POST_checkout till (Some ''u1'') (Some (DINE_IN, CASH)) db_short db_short
     = (db_short, Response 409 (ErrorBody (''Stok '' @ sl_name ?A4 @ '' tidak mencukupi.'')))"
    by blast
  then have r3: "POST_checkout till (Some ''u1'') (Some (DINE_IN, CASH)) db_short db_short
     = (db_short, Response 409 (ErrorBody ''Stok Nasi Goreng tidak mencukupi.''))"
    by simp
  from r1 r2 r3 show ?thesis by blast
qed

subsection \<open>Checkout: totals\<close>

text \<open>
  C4, within the integers JavaScript adds and multiplies exactly. When a checkout of a
  non-empty cart whose lines all pass validation commits, and the prices and quantities
  of the lines are not negative and the sum of price times quantity over the lines is
  at most \<open>2^53 - 1\<close>, the order it adds has as subtotal that sum (over the prices
  read with the cart), discount 0, tax 0 and total = subtotal - discount + tax; paid in
  cash, the answer is 200 with the order's id and code and that total. For the cart of
  two at 25000 and one at 15000 the total is 65000.
\<close>

theorem checkout_totals:
  assumes "uid \<noteq> []"
    and "carts seen uid = Some items"
    and "join_lines (products seen) items = Some lines"
    and "lines \<noteq> []"
    and "list_all line_ok lines"
    and "o_code (placed_order ctx uid dt lines seen) \<notin> o_code ` set (orders db)"
    and "ctx_newId ctx \<notin> o_id ` set (orders db)"
    and "carts db uid = Some items'"
    and "list_all (\<lambda>it. 0 \<le> sl_price it \<and> 0 \<le> sl_qty it) lines"
    and "(\<Sum>it\<leftarrow>lines. sl_price it * sl_qty it) \<le> 9007199254740991"
  shows "\<exists>ord. fst (POST_checkout ctx (Some uid) (Some (dt, pc)) seen db)
            = db\<lparr>carts := (carts db)(uid := None), orders := orders db @ [ord]\<rparr>
      \<and> o_subtotal ord = (\<Sum>it\<leftarrow>lines. sl_price it * sl_qty it)
      \<and> o_discount ord = 0
      \<and> o_tax ord = 0
      \<and> o_total ord = o_subtotal ord - o_discount ord + o_tax ord
      \<and> snd (POST_checkout ctx (Some uid) (Some (dt, CASH)) seen db)
          = Response 200 (CashBody (o_id ord) (o_code ord) (\<Sum>it\<leftarrow>lines. sl_price it * sl_qty it))"
proof -
  let ?ord = "placed_order ctx uid dt lines seen"
  note exact = cart_subtotal_exact [OF assms(9,10)]
  have "fst (POST_checkout ctx (Some uid) (Some (dt, pc)) seen db)
            = db\<lparr>carts := (carts db)(uid := None), orders := orders db @ [?ord]\<rparr>"
    by (simp add: POST_checkout_commits [OF assms(1-8)])
  moreover have "o_subtotal ?ord = (\<Sum>it\<leftarrow>lines. sl_price it * sl_qty it)"
    by (simp add: placed_order_def exact)
  moreover have "o_discount ?ord = 0" "o_tax ?ord = 0"
    "o_total ?ord = o_subtotal ?ord - o_discount ?ord + o_tax ?ord"
    by (simp_all add: placed_order_def)
  moreover have "snd (POST_checkout ctx (Some uid) (Some (dt, CASH)) seen db)
          = Response 200 (CashBody (o_id ?ord) (o_code ?ord) (\<Sum>it\<leftarrow>lines. sl_price it * sl_qty it))"
    by (simp add: POST_checkout_commits [OF assms(1-8)] payment_step_def)
       (simp add: placed_order_def exact)
  ultimately show ?thesis by blast
qed

theorem checkout_totals_witness:
  "\<exists>ord. fst (POST_checkout till (Some ''u1'') (Some (DINE_IN, CASH)) db_scenario db_scenario)
            = db_scenario\<lparr>carts := (carts db_scenario)(''u1'' := None), orders := [ord]\<rparr>
      \<and> o_subtotal ord = 65000 \<and> o_discount ord = 0 \<and> o_tax ord = 0 \<and> o_total ord = 65000
      \<and> snd (POST_checkout till (Some ''u1'') (Some (DINE_IN, CASH)) db_scenario db_scenario)
          = Response 200 (CashBody (o_id ord) (o_code ord) 65000)"
proof -
  have h1: "''u1'' \<noteq> []" by simp
  have h2: "carts db_scenario ''u1''
      = Some [\<lparr>ci_productId = ''A'', ci_qty = 2\<rparr>, \<lparr>ci_productId = ''B'', ci_qty = 1\<rparr>]"
    by (simp add: db_scenario_def)
  have h4: "lines_scenario \<noteq> []" by (simp add: lines_scenario_def)
  have h6: "o_code (placed_order till ''u1'' DINE_IN lines_scenario db_scenario)
      \<notin> o_code ` set (orders db_scenario)"
    by (simp add: db_scenario_def)
  have h7: "ctx_newId till \<notin> o_id ` set (orders db_scenario)"
    by (simp add: db_scenario_def)
  have h9: "list_all (\<lambda>it. 0 \<le> sl_price it \<and> 0 \<le> sl_qty it) lines_scenario"
    by (simp add: lines_scenario_def)
  have s: "(\<Sum>it\<leftarrow>lines_scenario. sl_price it * sl_qty it) = 65000"
    by (simp add: lines_scenario_def)
  have h10: "(\<Sum>it\<leftarrow>lines_scenario. sl_price it * sl_qty it) \<le> 9007199254740991"
    unfolding s by simp
  have e: "orders db_scenario = []" by (simp add: db_scenario_def)
  from checkout_totals [OF h1 h2 scenario_join h4 scenario_ok h6 h7 h2 h9 h10, of CASH]
  show ?thesis unfolding s e by auto
qed

text \<open>
  Without the bound the sum is not what the route stores. One line of 3 at
  \<open>2^53 - 1\<close>: the exact product is 27021597764222973, between \<open>2^54\<close> and \<open>2^55\<close>, where
  the doubles are the multiples of 4. The line total, the subtotal and the total of the
  committed order, and the total of the cash answer, are 27021597764222972.
\<close>

theorem checkout_totals_counterexample:
  "(let r = POST_checkout till (Some ''u1'') (Some (DINE_IN, CASH)) db_big db_big
    in join_lines (products db_big) [\<lparr>ci_productId = ''G'', ci_qty = 3\<rparr>] = Some lines_big
       \<and> validate lines_big = None
       \<and> (\<Sum>it\<leftarrow>lines_big. sl_price it * sl_qty it) = 27021597764222973
       \<and> snd r = Response 200 (CashBody ''7c1d9e04'' ''ORD-20240117-001'' 27021597764222972)
       \<and> map o_subtotal (orders (fst r)) = [27021597764222972]
       \<and> map o_total (orders (fst r)) = [27021597764222972]
       \<and> map (map oi_total \<circ> o_items) (orders (fst r)) = [[27021597764222972]]
       \<and> map o_subtotal (orders (fst r)) \<noteq> [\<Sum>it\<leftarrow>lines_big. sl_price it * sl_qty it])"
proof -
  have m: "js_mul 9007199254740991 3 = 27021597764222972"
    by (simp add: js_mul_def js_round_def round_nat_def ulp_of.simps Let_def)
  have a: "js_add 0 27021597764222972 = 27021597764222972"
    "js_add 27021597764222972 0 = 27021597764222972"
    by (simp_all add: js_add_def js_round_def round_nat_def ulp_of.simps Let_def)
  have z: "js_sub 27021597764222972 0 = 27021597764222972"
    by (simp add: js_sub_def js_round_def round_nat_def ulp_of.simps Let_def)
  show ?thesis
    by (simp add: Let_def POST_checkout_def join_lines_def join_line_def checkout_tx_def
        order_create_def cart_delete_def order_lines_def cart_subtotal_def payment_step_def
        render same_day db_big_def lines_big_def till_def noon_def m a z)
qed

subsection \<open>Checkout: the gateway fails after the commit\<close>

text \<open>
  C8. When a cashless checkout commits and the gateway step then fails, the store
  keeps the commit: the new order, with its lines and in status \<open>AWAITING_PAYMENT\<close>,
  is in the order table and the cart is gone; the caller gets 500, with
  \<^verbatim>\<open>MIDTRANS_SERVER_KEY tidak dikonfigurasi.\<close> when the server key is absent or empty
  and with the route's general server error when the token call fails.
\<close>

theorem gateway_failure_keeps_order:
  assumes "uid \<noteq> []"
    and "carts seen uid = Some items"
    and "join_lines (products seen) items = Some lines"
    and "lines \<noteq> []"
    and "list_all line_ok lines"
    and "o_code (placed_order ctx uid dt lines seen) \<notin> o_code ` set (orders db)"
    and "ctx_newId ctx \<notin> o_id ` set (orders db)"
    and "carts db uid = Some items'"
  shows "(ctx_serverKey ctx = None \<or> ctx_serverKey ctx = Some [] \<longrightarrow>
            POST_checkout ctx (Some uid) (Some (dt, CASHLESS)) seen db
              = (db\<lparr>carts := (carts db)(uid := None),
                     orders := orders db @ [placed_order ctx uid dt lines seen]\<rparr>,
                 Response 500 (ErrorBody ''MIDTRANS_SERVER_KEY tidak dikonfigurasi.'')))
      \<and> (\<forall>key. ctx_serverKey ctx = Some key \<and> key \<noteq> []
            \<and> ctx_gateway ctx (ctx_isProduction ctx) key
                 (snapParams (placed_order ctx uid dt lines seen)) = None \<longrightarrow>
            POST_checkout ctx (Some uid) (Some (dt, CASHLESS)) seen db
              = (db\<lparr>carts := (carts db)(uid := None),
                     orders := orders db @ [placed_order ctx uid dt lines seen]\<rparr>,
                 Response 500 (ErrorBody ''Terjadi kesalahan pada server.'')))
      \<and> o_status (placed_order ctx uid dt lines seen) = AWAITING_PAYMENT
      \<and> o_items (placed_order ctx uid dt lines seen) = order_lines lines"
proof (intro conjI allI impI)
  assume "ctx_serverKey ctx = None \<or> ctx_serverKey ctx = Some []"
  then have "payment_step ctx CASHLESS (placed_order ctx uid dt lines seen) = misconfigured"
    by (auto simp: payment_step_def)
  then show "POST_checkout ctx (Some uid) (Some (dt, CASHLESS)) seen db
              = (db\<lparr>carts := (carts db)(uid := None),
                     orders := orders db @ [placed_order ctx uid dt lines seen]\<rparr>,
                 Response 500 (ErrorBody ''MIDTRANS_SERVER_KEY tidak dikonfigurasi.''))"
    by (simp add: POST_checkout_commits [OF assms] misconfigured_def)
next
  fix key
  assume "ctx_serverKey ctx = Some key \<and> key \<noteq> []
            \<and> ctx_gateway ctx (ctx_isProduction ctx) key
                 (snapParams (placed_order ctx uid dt lines seen)) = None"
  then have "payment_step ctx CASHLESS (placed_order ctx uid dt lines seen) = server_error"
    by (simp add: payment_step_def)
  then show "POST_checkout ctx (Some uid) (Some (dt, CASHLESS)) seen db
              = (db\<lparr>carts := (carts db)(uid := None),
                     orders := orders db @ [placed_order ctx uid dt lines seen]\<rparr>,
                 Response 500 (ErrorBody ''Terjadi kesalahan pada server.''))"
    by (simp add: POST_checkout_commits [OF assms] server_error_def)
next
  show "o_status (placed_order ctx uid dt lines seen) = AWAITING_PAYMENT"
    by (simp add: placed_order_def)
  show "o_items (placed_order ctx uid dt lines seen) = order_lines lines"
    by (simp add: placed_order_def)
qed

theorem gateway_failure_keeps_order_witness:
  "(\<exists>db'. POST_checkout till (Some ''u1'') (Some (DINE_IN, CASHLESS)) db_scenario db_scenario
       = (db', Response 500 (ErrorBody ''MIDTRANS_SERVER_KEY tidak dikonfigurasi.''))
      \<and> carts db' ''u1'' = None
      \<and> map o_code (orders db') = [''ORD-20240117-001'']
      \<and> map o_status (orders db') = [AWAITING_PAYMENT]
      \<and> map (length \<circ> o_items) (orders db') = [2])
   \<and> (\<exists>db'. POST_checkout kiosk (Some ''u1'') (Some (DINE_IN, CASHLESS)) db_scenario db_scenario
       = (db', Response 500 (ErrorBody ''Terjadi kesalahan pada server.''))
      \<and> carts db' ''u1'' = None
      \<and> map o_code (orders db') = [''ORD-20240117-001'']
      \<and> map o_status (orders db') = [AWAITING_PAYMENT]
      \<and> map (length \<circ> o_items) (orders db') = [2])"
proof -
  have h1: "''u1'' \<noteq> []" by simp
  have h2: "carts db_scenario ''u1''
      = Some [\<lparr>ci_productId = ''A'', ci_qty = 2\<rparr>, \<lparr>ci_productId = ''B'', ci_qty = 1\<rparr>]"
    by (simp add: db_scenario_def)
  have h4: "lines_scenario \<noteq> []" by (simp add: lines_scenario_def)
  have h6: "o_code (placed_order ctx ''u1'' DINE_IN lines_scenario db_scenario)
      \<notin> o_code ` set (orders db_scenario)" for ctx
    by (simp add: db_scenario_def)
  have h7: "ctx_newId ctx \<notin> o_id ` set (orders db_scenario)" for ctx
    by (simp add: db_scenario_def)
  have e: "orders db_scenario = []" by (simp add: db_scenario_def)
  have len: "length lines_scenario = 2" by (simp add: lines_scenario_def)
  have c: "o_code (placed_order ctx ''u1'' DINE_IN lines_scenario db_scenario) = ''ORD-20240117-001''"
    if "ctx_now ctx = noon" for ctx
    using that by (simp add: scenario_code noon_code)
  note t = gateway_failure_keeps_order [OF h1 h2 scenario_join h4 scenario_ok h6 h7 h2, of till]
  note k = gateway_failure_keeps_order [OF h1 h2 scenario_join h4 scenario_ok h6 h7 h2, of kiosk]
  have "ctx_serverKey till = None \<or> ctx_serverKey till = Some []" by (simp add: till_def)
  with t have a: "POST_checkout till (Some ''u1'') (Some (DINE_IN, CASHLESS)) db_scenario db_scenario
              = (db_scenario\<lparr>carts := (carts db_scenario)(''u1'' := None),
                     orders := orders db_scenario @ [placed_order till ''u1'' DINE_IN lines_scenario db_scenario]\<rparr>,
                 Response 500 (ErrorBody ''MIDTRANS_SERVER_KEY tidak dikonfigurasi.''))"
    by blast
  have "ctx_serverKey kiosk = Some ''SB-Mid-server-k1'' \<and> ''SB-Mid-server-k1'' \<noteq> []
            \<and> ctx_gateway kiosk (ctx_isProduction kiosk) ''SB-Mid-server-k1''
                 (snapParams (placed_order kiosk ''u1'' DINE_IN lines_scenario db_scenario)) = None"
    by (simp add: kiosk_def)
  with k have b: "POST_checkout kiosk (Some ''u1'') (Some (DINE_IN, CASHLESS)) db_scenario db_scenario
              = (db_scenario\<lparr>carts := (carts db_scenario)(''u1'' := None),
                     orders := orders db_scenario @ [placed_order kiosk ''u1'' DINE_IN lines_scenario db_scenario]\<rparr>,
                 Response 500 (ErrorBody ''Terjadi kesalahan pada server.''))"
    by blast
  have st: "o_status (placed_order ctx ''u1'' DINE_IN lines_scenario db_scenario) = AWAITING_PAYMENT"
    and it: "o_items (placed_order ctx ''u1'' DINE_IN lines_scenario db_scenario) = order_lines lines_scenario"
    for ctx
    by (simp_all add: placed_order_def)
  have ct: "ctx_now till = noon" and ck: "ctx_now kiosk = noon"
    by (simp_all add: till_def kiosk_def)
  show ?thesis
    unfolding a b
    by (simp add: e c [OF ct] c [OF ck] st it order_lines_def len)
qed

subsection \<open>Checkout: a failed commit\<close>

lemma race_join: "join_lines (products db_race_seen) [\<lparr>ci_productId = ''B'', ci_qty = 1\<rparr>] = Some lines_u2"
  by (simp add: join_lines_def join_line_def db_race_seen_def menu_def lines_u2_def)

lemma race_ok: "list_all line_ok lines_u2"
  by (simp add: lines_u2_def line_ok_def)

lemma race_seen_number: "getTodayQueueNumber noon (orders db_race_seen) = ''002''"
  by (simp add: render same_day db_race_seen_def order1_def noon_def morning_def)

lemma race_now_number: "getTodayQueueNumber noon (orders db_race_now) = ''003''"
  by (simp add: render same_day db_race_now_def order1_def order2_def noon_def morning_def)

text \<open>
  C6 as the route has it. When the commit of a validated checkout fails (the code
  allocated on the state the count saw is already taken when the insert runs, or the id
  is taken, or the cart is gone), nothing is written: the store is returned as it was,
  without the order, its lines or the cart deletion. The route then answers 500
  \<^verbatim>\<open>Terjadi kesalahan pada server.\<close> at once; it does not allocate a second code.
\<close>

theorem failed_commit_rolls_back_without_retry:
  assumes "uid \<noteq> []"
    and "carts seen uid = Some items"
    and "join_lines (products seen) items = Some lines"
    and "lines \<noteq> []"
    and "list_all line_ok lines"
    and "o_code (placed_order ctx uid dt lines seen) \<in> o_code ` set (orders db)
     \<or> ctx_newId ctx \<in> o_id ` set (orders db) \<or> carts db uid = None"
  shows "POST_checkout ctx (Some uid) (Some (dt, pc)) seen db
     = (db, Response 500 (ErrorBody ''Terjadi kesalahan pada server.''))"
  using POST_checkout_aborts [OF assms] by (simp add: server_error_def)

theorem failed_commit_rolls_back_without_retry_witness:
  "o_code (placed_order till3 ''u2'' TAKE_AWAY lines_u2 db_race_seen) = ''ORD-20240117-002''
   \<and> ''ORD-20240117-002'' \<in> o_code ` set (orders db_race_now)
   \<and> POST_checkout till3 (Some ''u2'') (Some (TAKE_AWAY, CASH)) db_race_seen db_race_now
     = (db_race_now, Response 500 (ErrorBody ''Terjadi kesalahan pada server.''))"
proof -
  have h1: "''u2'' \<noteq> []" by simp
  have h2: "carts db_race_seen ''u2'' = Some [\<lparr>ci_productId = ''B'', ci_qty = 1\<rparr>]"
    by (simp add: db_race_seen_def)
  have h4: "lines_u2 \<noteq> []" by (simp add: lines_u2_def)
  have c: "o_code (placed_order till3 ''u2'' TAKE_AWAY lines_u2 db_race_seen) = ''ORD-20240117-002''"
    by (simp add: placed_order_def till3_def race_seen_number noon_code)
  have m: "''ORD-20240117-002'' \<in> o_code ` set (orders db_race_now)"
    by (simp add: db_race_now_def order2_def)
  have h6: "o_code (placed_order till3 ''u2'' TAKE_AWAY lines_u2 db_race_seen)
        \<in> o_code ` set (orders db_race_now)
     \<or> ctx_newId till3 \<in> o_id ` set (orders db_race_now) \<or> carts db_race_now ''u2'' = None"
    using c m by simp
  from failed_commit_rolls_back_without_retry [OF h1 h2 race_join h4 race_ok h6, of CASH] c m
  show ?thesis by simp
qed

text \<open>
  The retry the specification asks for is not what the route does. A second customer
  checks out while the
  first customer's order \<open>002\<close> is being committed: the count saw one order of the
  day, the insert finds code \<open>002\<close> taken. The route answers 500 and leaves the store
  as it is, where one retry with a fresh count would have placed order \<open>003\<close>.
\<close>

theorem checkout_retry_counterexample:
  "POST_checkout till3 (Some ''u2'') (Some (TAKE_AWAY, CASH)) db_race_seen db_race_now
     = (db_race_now, Response 500 (ErrorBody ''Terjadi kesalahan pada server.''))
   \<and> checkout_retry_spec (Suc 0) till3 ''u2'' TAKE_AWAY CASH lines_u2 db_race_seen db_race_now
     = Done (db_race_now\<lparr>carts := (carts db_race_now)(''u2'' := None),
                orders := orders db_race_now @ [placed_order till3 ''u2'' TAKE_AWAY lines_u2 db_race_now]\<rparr>,
             Response 200 (CashBody ''a46e20d5'' ''ORD-20240117-003'' 15000))
   \<and> Done (POST_checkout till3 (Some ''u2'') (Some (TAKE_AWAY, CASH)) db_race_seen db_race_now)
     \<noteq> checkout_retry_spec (Suc 0) till3 ''u2'' TAKE_AWAY CASH lines_u2 db_race_seen db_race_now"
proof -
  have h1: "''u2'' \<noteq> []" by simp
  have h2: "carts db_race_seen ''u2'' = Some [\<lparr>ci_productId = ''B'', ci_qty = 1\<rparr>]"
    by (simp add: db_race_seen_def)
  have h4: "lines_u2 \<noteq> []" by (simp add: lines_u2_def)
  have c2: "o_code (placed_order till3 ''u2'' TAKE_AWAY lines_u2 db_race_seen) = ''ORD-20240117-002''"
    by (simp add: placed_order_def till3_def race_seen_number noon_code)
  have c3: "o_code (placed_order till3 ''u2'' TAKE_AWAY lines_u2 db_race_now) = ''ORD-20240117-003''"
    by (simp add: placed_order_def till3_def race_now_number noon_code)
  have taken: "o_code (placed_order till3 ''u2'' TAKE_AWAY lines_u2 db_race_seen)
        \<in> o_code ` set (orders db_race_now)
     \<or> ctx_newId till3 \<in> o_id ` set (orders db_race_now) \<or> carts db_race_now ''u2'' = None"
    unfolding c2 by (simp add: db_race_now_def order2_def)
  have free: "o_code (placed_order till3 ''u2'' TAKE_AWAY lines_u2 db_race_now)
        \<notin> o_code ` set (orders db_race_now)"
    unfolding c3 by (simp add: db_race_now_def order1_def order2_def)
  have fresh: "ctx_newId till3 \<notin> o_id ` set (orders db_race_now)"
    by (simp add: db_race_now_def order1_def order2_def till3_def)
  have cart: "carts db_race_now ''u2'' = Some [\<lparr>ci_productId = ''B'', ci_qty = 1\<rparr>]"
    by (simp add: db_race_now_def)
  have route: "POST_checkout till3 (Some ''u2'') (Some (TAKE_AWAY, CASH)) db_race_seen db_race_now
     = (db_race_now, Response 500 (ErrorBody ''Terjadi kesalahan pada server.''))"
    using POST_checkout_aborts [OF h1 h2 race_join h4 race_ok taken, of CASH]
    by (simp add: server_error_def)
  have pay: "payment_step till3 CASH (placed_order till3 ''u2'' TAKE_AWAY lines_u2 db_race_now)
     = Response 200 (CashBody ''a46e20d5'' ''ORD-20240117-003'' 15000)"
    unfolding payment_step_def c3
    by (simp add: placed_order_def till3_def cart_subtotal_def lines_u2_def js_eval)
  have spec: "checkout_retry_spec (Suc 0) till3 ''u2'' TAKE_AWAY CASH lines_u2 db_race_seen db_race_now
     = Done (db_race_now\<lparr>carts := (carts db_race_now)(''u2'' := None),
                orders := orders db_race_now @ [placed_order till3 ''u2'' TAKE_AWAY lines_u2 db_race_now]\<rparr>,
             Response 200 (CashBody ''a46e20d5'' ''ORD-20240117-003'' 15000))"
    by (simp only: checkout_retry_spec.simps checkout_tx_aborts [OF taken]
        checkout_tx_commits [OF free fresh cart] option.case prod.case pay)
  show ?thesis
    unfolding route spec by simp
qed

subsection \<open>The queue number and the code below a thousand orders\<close>

lemma createdToday_same_date:
  "wf_time (o_createdAt ord) \<Longrightarrow> createdToday now ord = same_date (o_createdAt ord) now"
  by (auto simp: createdToday_def date_le_def date_key_def startOfDay_def endOfDay_def
      wf_time_def same_date_def)

lemma digit_char_digit: "digit_char n \<in> set ''0123456789''"
proof -
  have "n mod 10 < length ''0123456789''" by simp
  then show ?thesis unfolding digit_char_def by (rule nth_mem)
qed

lemma digits_string_of_nat: "digits (string_of_nat n)"
proof (induction n rule: string_of_nat.induct)
  case (1 n)
  show ?case
  proof (cases "n < 10")
    case True
    then show ?thesis
      using digit_char_digit [of n] by (simp add: string_of_nat.simps [of n] digits_def)
  next
    case False
    with "1" have "digits (string_of_nat (n div 10))" by simp
    then show ?thesis
      using False digit_char_digit [of "n mod 10"]
      by (simp add: string_of_nat.simps [of n] digits_def)
  qed
qed

lemma length_string_of_nat_1: "n < 10 \<Longrightarrow> length (string_of_nat n) = 1"
  by (simp add: string_of_nat.simps [of n])

lemma length_string_of_nat_2: "10 \<le> n \<Longrightarrow> n < 100 \<Longrightarrow> length (string_of_nat n) = 2"
  by (simp add: string_of_nat.simps [of n] length_string_of_nat_1)

lemma length_string_of_nat_3: "100 \<le> n \<Longrightarrow> n < 1000 \<Longrightarrow> length (string_of_nat n) = 3"
  by (simp add: string_of_nat.simps [of n] length_string_of_nat_2)

lemma length_string_of_nat_4: "1000 \<le> n \<Longrightarrow> n < 10000 \<Longrightarrow> length (string_of_nat n) = 4"
  by (simp add: string_of_nat.simps [of n] length_string_of_nat_3)

lemma length_string_of_nat_ge_4: "1000 \<le> n \<Longrightarrow> 4 \<le> length (string_of_nat n)"
proof (induction n rule: string_of_nat.induct)
  case (1 n)
  show ?case
  proof (cases "n < 10000")
    case True
    with "1.prems" show ?thesis by (simp add: length_string_of_nat_4)
  next
    case False
    then have "1000 \<le> n div 10" by simp
    with "1.IH" False have "4 \<le> length (string_of_nat (n div 10))" by simp
    with False show ?thesis by (simp add: string_of_nat.simps [of n])
  qed
qed

lemma length_padStart: "length (padStart k c s) = max k (length s)"
  by (simp add: padStart_def)

lemma digits_padStart_0: "digits s \<Longrightarrow> digits (padStart k (CHR ''0'') s)"
  by (auto simp: padStart_def digits_def list_all_iff set_replicate_conv_if)

text \<open>
  The queue number is the number of orders created on the local day of \<open>now\<close>, plus
  one, in decimal and padded with zeros; it has three characters exactly when the day
  has fewer than 999 orders.
\<close>

lemma queue_number_is_count_plus_one:
  assumes "list_all (\<lambda>ord. wf_time (o_createdAt ord)) os"
  shows "getTodayQueueNumber now os
     = padStart 3 (CHR ''0'')
         (string_of_nat (length (filter (\<lambda>ord. same_date (o_createdAt ord) now) os) + 1))"
proof -
  have "filter (createdToday now) os = filter (\<lambda>ord. same_date (o_createdAt ord) now) os"
    using assms by (intro filter_cong) (auto simp: list_all_iff createdToday_same_date)
  then show ?thesis by (simp add: getTodayQueueNumber_def)
qed

lemma queue_number_three_digits_iff:
  "length (getTodayQueueNumber now os) = 3 \<longleftrightarrow> length (filter (createdToday now) os) < 999"
proof -
  let ?n = "length (filter (createdToday now) os) + 1"
  consider "?n < 10" | "10 \<le> ?n" "?n < 100" | "100 \<le> ?n" "?n < 1000" | "1000 \<le> ?n"
    by linarith
  then show ?thesis
  proof cases
    case 1
    then show ?thesis
      by (simp add: getTodayQueueNumber_def length_padStart length_string_of_nat_1)
  next
    case 2
    then show ?thesis
      by (simp add: getTodayQueueNumber_def length_padStart length_string_of_nat_2)
  next
    case 3
    then show ?thesis
      by (simp add: getTodayQueueNumber_def length_padStart length_string_of_nat_3)
  next
    case 4
    then have "4 \<le> length (string_of_nat ?n)" by (rule length_string_of_nat_ge_4)
    with 4 show ?thesis
      by (simp add: getTodayQueueNumber_def length_padStart)
  qed
qed

lemma queue_number_digits: "digits (getTodayQueueNumber now os)"
  by (simp add: getTodayQueueNumber_def digits_padStart_0 digits_string_of_nat)

lemma order_code_shape:
  assumes "1000 \<le> year now" and "year now < 10000" and "month now < 12"
    and "1 \<le> day now" and "day now \<le> 31"
    and "length (filter (createdToday now) os) < 999"
  shows "\<exists>yyyy mm dd nnn.
      makeOrderCode now (getTodayQueueNumber now os) = ''ORD-'' @ yyyy @ mm @ dd @ ''-'' @ nnn
      \<and> length yyyy = 4 \<and> length mm = 2 \<and> length dd = 2 \<and> length nnn = 3
      \<and> digits yyyy \<and> digits mm \<and> digits dd \<and> digits nnn"
proof -
  let ?mm = "padStart 2 (CHR ''0'') (string_of_nat (month now + 1))"
  let ?dd = "padStart 2 (CHR ''0'') (string_of_nat (day now))"
  have y: "length (string_of_nat (year now)) = 4"
    using assms(1,2) by (rule length_string_of_nat_4)
  have m: "length ?mm = 2"
  proof (cases "month now + 1 < 10")
    case True
    then show ?thesis by (simp add: length_padStart length_string_of_nat_1)
  next
    case False
    with assms(3) show ?thesis by (simp add: length_padStart length_string_of_nat_2)
  qed
  have d: "length ?dd = 2"
  proof (cases "day now < 10")
    case True
    then show ?thesis by (simp add: length_padStart length_string_of_nat_1)
  next
    case False
    with assms(5) show ?thesis by (simp add: length_padStart length_string_of_nat_2)
  qed
  have n: "length (getTodayQueueNumber now os) = 3"
    using assms(6) by (simp add: queue_number_three_digits_iff)
  have "makeOrderCode now (getTodayQueueNumber now os)
      = ''ORD-'' @ string_of_nat (year now) @ ?mm @ ?dd @ ''-'' @ getTodayQueueNumber now os"
    by (simp add: makeOrderCode_def)
  with y m d n show ?thesis
    using digits_string_of_nat digits_padStart_0 queue_number_digits by blast
qed

subsection \<open>The thousandth order of a day\<close>

lemma busy_day_today: "filter (createdToday noon) busy_day = busy_day"
  by (simp add: busy_day_def filter_map o_def same_day order1_def noon_def morning_def)

text \<open>
  C5. After 999 orders of the day (numbered 001 to 999) the count plus one is 1000:
  the queue number is \<open>1000\<close>, four characters, and the code is
  \<open>ORD-20240117-1000\<close>.
\<close>

theorem queue_number_after_999_orders:
  "length busy_day = 999
   \<and> getTodayQueueNumber noon busy_day = ''1000''
   \<and> length (getTodayQueueNumber noon busy_day) = 4
   \<and> makeOrderCode noon (getTodayQueueNumber noon busy_day) = ''ORD-20240117-1000''"
proof -
  have n: "length busy_day = 999" by (simp add: busy_day_def)
  have q: "getTodayQueueNumber noon busy_day = ''1000''"
    by (simp add: getTodayQueueNumber_def busy_day_today n padStart_def string_of_nat.simps
        digit_char_def)
  show ?thesis unfolding q using n by (simp add: noon_code)
qed

subsection \<open>Stock after two orders for the last portions\<close>

text \<open>
  C2. One product with 3 in stock; two customers each hold 3 of it in their cart. Both
  check out (the validation compares with the stock, which a checkout does not take),
  then both orders are confirmed, every request alone and every request answered with
  success. The stock is 3 after the two checkouts, 0 after the first confirmation and
  \<open>-3\<close> after the second.
\<close>

theorem stock_goes_negative:
  "(let r1 = POST_checkout till (Some ''u1'') (Some (DINE_IN, CASH)) db_last3 db_last3;
        r2 = POST_checkout till3 (Some ''u2'') (Some (DINE_IN, CASH)) (fst r1) (fst r1);
        r3 = POST_confirm noon ''ORD-20240117-001'' (fst r2) (fst r2);
        r4 = POST_confirm noon ''ORD-20240117-002'' (fst r3) (fst r3)
    in snd r1 = Response 200 (CashBody ''7c1d9e04'' ''ORD-20240117-001'' 75000)
       \<and> snd r2 = Response 200 (CashBody ''a46e20d5'' ''ORD-20240117-002'' 75000)
       \<and> snd r3 = Response 200 OkBody
       \<and> snd r4 = Response 200 OkBody
       \<and> map_option p_stock (products db_last3 ''A'') = Some 3
       \<and> map_option p_stock (products (fst r2) ''A'') = Some 3
       \<and> map_option p_stock (products (fst r3) ''A'') = Some 0
       \<and> map_option p_stock (products (fst r4) ''A'') = Some (- 3))"
  by (simp add: Let_def handlers render same_day db_last3_def till_def till3_def noon_def)

subsection \<open>Price locking\<close>

lemma those_detail_items:
  "list_all (\<lambda>it. map_option p_name (ps (sl_productId it)) = Some (sl_name it)) lines
   \<Longrightarrow> those (map (detail_item ps) (order_lines lines)) = Some (map receipt_line lines)"
  by (induction lines) (auto simp: order_lines_def detail_item_def receipt_line_def)

lemma receipt_intact_GET:
  assumes "receipt_intact code uid amount lines s" and "uid \<noteq> []"
  shows "\<exists>st. GET_order (Some uid) code s
           = Response 200 (OrderDetailBody code st amount (map receipt_line lines))"
  using assms
  by (auto simp: receipt_intact_def GET_order_def those_detail_items split: option.splits)

lemma receipt_intact_set_price:
  "receipt_intact code uid amount lines s \<Longrightarrow> receipt_intact code uid amount lines (set_price pid v s)"
  by (auto simp: receipt_intact_def set_price_def list_all_iff split: option.splits)

lemma decrement_stock_names:
  "decrement_stock its ps = Some ps' \<Longrightarrow> map_option p_name (ps' pid) = map_option p_name (ps pid)"
proof (induction its arbitrary: ps)
  case Nil
  then show ?case by simp
next
  case (Cons it rest)
  then obtain p where p: "ps (oi_productId it) = Some p"
    by (auto split: option.splits)
  with Cons.prems
  have "decrement_stock rest (ps(oi_productId it \<mapsto> p\<lparr>p_stock := p_stock p - oi_qty it\<rparr>)) = Some ps'"
    by simp
  from Cons.IH [OF this] show ?case by (auto simp: p split: if_splits)
qed

lemma find_owned_map_mark_paid:
  "find (\<lambda>x. o_code x = code \<and> o_customerId x = uid) (map (mark_paid oid now) os)
     = map_option (mark_paid oid now) (find (\<lambda>x. o_code x = code \<and> o_customerId x = uid) os)"
  by (induction os) (auto simp: mark_paid_def)

lemma POST_confirm_cases:
  obtains (same) "fst (POST_confirm now code s s) = s"
  | (paid) ord :: order_row and ps' where "decrement_stock (o_items ord) (products s) = Some ps'"
      and "fst (POST_confirm now code s s)
            = s\<lparr>products := ps', orders := map (mark_paid (o_id ord) now) (orders s)\<rparr>"
proof (cases "find (\<lambda>ord. o_code ord = code) (orders s)")
  case None
  then have "fst (POST_confirm now code s s) = s" by (simp add: POST_confirm_def)
  then show ?thesis by (rule same)
next
  case (Some ord)
  show ?thesis
  proof (cases "confirm_tx now ord s")
    case None
    with Some have "fst (POST_confirm now code s s) = s" by (simp add: POST_confirm_def)
    then show ?thesis by (rule same)
  next
    case tx: (Some s')
    then obtain ps' where d: "decrement_stock (o_items ord) (products s) = Some ps'"
      and s': "s' = s\<lparr>products := ps', orders := map (mark_paid (o_id ord) now) (orders s)\<rparr>"
      by (auto simp: confirm_tx_def order_update_paid_def split: option.splits if_splits)
    show ?thesis
    proof (cases "o_status ord = PAID")
      case True
      with Some have "fst (POST_confirm now code s s) = s" by (simp add: POST_confirm_def)
      then show ?thesis by (rule same)
    next
      case False
      with Some tx have "fst (POST_confirm now code s s) = s'"
        by (simp add: POST_confirm_def)
      then have "fst (POST_confirm now code s s)
            = s\<lparr>products := ps', orders := map (mark_paid (o_id ord) now) (orders s)\<rparr>"
        by (simp only: s')
      with d show ?thesis by (rule paid)
    qed
  qed
qed

lemma receipt_intact_confirm:
  assumes "receipt_intact code uid amount lines s"
  shows "receipt_intact code uid amount lines (fst (POST_confirm now c s s))"
proof (cases rule: POST_confirm_cases [of now c s])
  case same
  with assms show ?thesis by simp
next
  case (paid ord ps')
  show ?thesis
    using assms unfolding paid(2)
    by (auto simp: receipt_intact_def find_owned_map_mark_paid decrement_stock_names [OF paid(1)]
        mark_paid_def split: option.splits)
qed

lemma receipt_intact_replay:
  "receipt_intact code uid amount lines s \<Longrightarrow> receipt_intact code uid amount lines (replay evs s)"
proof (induction evs arbitrary: s)
  case Nil
  then show ?case by simp
next
  case (Cons e es)
  have "receipt_intact code uid amount lines (apply_event e s)"
    using Cons.prems by (cases e) (simp_all add: receipt_intact_set_price receipt_intact_confirm)
  then show ?case by (simp add: Cons.IH)
qed

lemma join_lines_names:
  "join_lines ps items = Some lines
   \<Longrightarrow> list_all (\<lambda>it. map_option p_name (ps (sl_productId it)) = Some (sl_name it)) lines"
proof (induction items arbitrary: lines)
  case Nil
  then show ?case by (simp add: join_lines_def)
next
  case (Cons ci rest)
  then show ?case
    by (auto simp: join_lines_def join_line_def split: option.splits)
qed

lemma find_snoc:
  "find P (xs @ [y]) = (case find P xs of None \<Rightarrow> (if P y then Some y else None) | Some x \<Rightarrow> Some x)"
  by (induction xs) simp_all

lemma receipt_intact_placed:
  assumes "join_lines (products db) items = Some lines"
    and "o_code (placed_order ctx uid dt lines db) \<notin> o_code ` set (orders db)"
  shows "receipt_intact (o_code (placed_order ctx uid dt lines db)) uid
           (cart_subtotal lines) lines
           (db\<lparr>carts := cs, orders := orders db @ [placed_order ctx uid dt lines db]\<rparr>)"
proof -
  have "\<not> (\<exists>x. x \<in> set (orders db)
            \<and> (o_code x = o_code (placed_order ctx uid dt lines db) \<and> o_customerId x = uid))"
  proof
    assume "\<exists>x. x \<in> set (orders db)
            \<and> (o_code x = o_code (placed_order ctx uid dt lines db) \<and> o_customerId x = uid)"
    then obtain x where "x \<in> set (orders db)"
      and "o_code x = o_code (placed_order ctx uid dt lines db)"
      by (elim exE conjE)
    then have "o_code (placed_order ctx uid dt lines db) \<in> o_code ` set (orders db)"
      by (metis imageI)
    with assms(2) show False by simp
  qed
  then have "find (\<lambda>x. o_code x = o_code (placed_order ctx uid dt lines db) \<and> o_customerId x = uid)
          (orders db) = None"
    by (simp add: find_None_iff)
  then show ?thesis
    using join_lines_names [OF assms(1)]
    by (simp add: receipt_intact_def find_snoc)
       (simp add: placed_order_def)
qed

text \<open>
  C7. A checkout, run alone, commits an order. Whatever catalogue prices are set
  afterwards and whatever confirmations run, before and after one another, the order
  found under its code keeps the total and the lines it was placed with, each line
  with the unit price and the line total of the checkout, and
  \<^verbatim>\<open>GET /orders/{code}\<close> reports that total and those prices. The total and the line
  totals are the ones the checkout computed and stored.
\<close>

theorem price_locking:
  assumes "uid \<noteq> []"
    and "carts db uid = Some items"
    and "join_lines (products db) items = Some lines"
    and "lines \<noteq> []"
    and "list_all line_ok lines"
    and "o_code (placed_order ctx uid dt lines db) \<notin> o_code ` set (orders db)"
    and "ctx_newId ctx \<notin> o_id ` set (orders db)"
  shows "\<exists>st ord.
      GET_order (Some uid) (o_code (placed_order ctx uid dt lines db))
          (replay evs (fst (POST_checkout ctx (Some uid) (Some (dt, pc)) db db)))
        = Response 200
            (OrderDetailBody (o_code (placed_order ctx uid dt lines db)) st
               (cart_subtotal lines) (map receipt_line lines))
      \<and> find (\<lambda>x. o_code x = o_code (placed_order ctx uid dt lines db) \<and> o_customerId x = uid)
            (orders (replay evs (fst (POST_checkout ctx (Some uid) (Some (dt, pc)) db db))))
          = Some ord
      \<and> o_total ord = cart_subtotal lines
      \<and> o_items ord = order_lines lines"
proof -
  let ?code = "o_code (placed_order ctx uid dt lines db)"
  let ?amount = "cart_subtotal lines"
  let ?s1 = "fst (POST_checkout ctx (Some uid) (Some (dt, pc)) db db)"
  have "?s1 = db\<lparr>carts := (carts db)(uid := None),
                  orders := orders db @ [placed_order ctx uid dt lines db]\<rparr>"
    by (simp add: POST_checkout_commits [OF assms(1-7) assms(2)])
  then have "receipt_intact ?code uid ?amount lines ?s1"
    by (simp add: receipt_intact_placed [OF assms(3) assms(6)])
  then have kept: "receipt_intact ?code uid ?amount lines (replay evs ?s1)"
    by (rule receipt_intact_replay)
  from receipt_intact_GET [OF kept assms(1)] obtain st where
    "GET_order (Some uid) ?code (replay evs ?s1)
       = Response 200 (OrderDetailBody ?code st ?amount (map receipt_line lines))" ..
  moreover from kept obtain ord where
    "find (\<lambda>x. o_code x = ?code \<and> o_customerId x = uid) (orders (replay evs ?s1)) = Some ord"
    "o_total ord = ?amount" "o_items ord = order_lines lines"
    by (auto simp: receipt_intact_def split: option.splits)
  ultimately show ?thesis by blast
qed

theorem price_locking_witness:
  "(\<exists>st. GET_order (Some ''u1'') ''ORD-20240117-001''
          (replay [Reprice ''A'' 99000, Confirm noon ''ORD-20240117-001'', Reprice ''B'' 1]
             (fst (POST_checkout till (Some ''u1'') (Some (DINE_IN, CASH)) db_scenario db_scenario)))
        = Response 200
            (OrderDetailBody ''ORD-20240117-001'' st 65000
               [\<lparr>productName = ''Nasi Goreng'', d_qty = 2, d_price = 25000, d_total = 50000\<rparr>,
                \<lparr>productName = ''Es Teh'', d_qty = 1, d_price = 15000, d_total = 15000\<rparr>]))
   \<and> map_option p_price
        (products
           (replay [Reprice ''A'' 99000, Confirm noon ''ORD-20240117-001'', Reprice ''B'' 1]
              (fst (POST_checkout till (Some ''u1'') (Some (DINE_IN, CASH)) db_scenario db_scenario)))
           ''A'') = Some 99000"
proof -
  let ?evs = "[Reprice ''A'' 99000, Confirm noon ''ORD-20240117-001'', Reprice ''B'' 1]"
  have h1: "''u1'' \<noteq> []" by simp
  have h2: "carts db_scenario ''u1''
      = Some [\<lparr>ci_productId = ''A'', ci_qty = 2\<rparr>, \<lparr>ci_productId = ''B'', ci_qty = 1\<rparr>]"
    by (simp add: db_scenario_def)
  have h4: "lines_scenario \<noteq> []" by (simp add: lines_scenario_def)
  have h6: "o_code (placed_order till ''u1'' DINE_IN lines_scenario db_scenario)
      \<notin> o_code ` set (orders db_scenario)"
    by (simp add: db_scenario_def)
  have h7: "ctx_newId till \<notin> o_id ` set (orders db_scenario)"
    by (simp add: db_scenario_def)
  have c: "o_code (placed_order till ''u1'' DINE_IN lines_scenario db_scenario) = ''ORD-20240117-001''"
    by (simp add: scenario_code noon_code till_def)
  have s: "cart_subtotal lines_scenario = 65000"
    by (simp add: cart_subtotal_def lines_scenario_def js_eval)
  have r: "map receipt_line lines_scenario
      = [\<lparr>productName = ''Nasi Goreng'', d_qty = 2, d_price = 25000, d_total = 50000\<rparr>,
         \<lparr>productName = ''Es Teh'', d_qty = 1, d_price = 15000, d_total = 15000\<rparr>]"
    by (simp add: lines_scenario_def receipt_line_def js_eval)
  from price_locking [OF h1 h2 scenario_join h4 scenario_ok h6 h7, of ?evs CASH]
  have get: "\<exists>st. GET_order (Some ''u1'') ''ORD-20240117-001''
          (replay ?evs (fst (POST_checkout till (Some ''u1'') (Some (DINE_IN, CASH)) db_scenario db_scenario)))
        = Response 200
            (OrderDetailBody ''ORD-20240117-001'' st 65000
               [\<lparr>productName = ''Nasi Goreng'', d_qty = 2, d_price = 25000, d_total = 50000\<rparr>,
                \<lparr>productName = ''Es Teh'', d_qty = 1, d_price = 15000, d_total = 15000\<rparr>])"
    unfolding c s r by blast
  have price: "map_option p_price
        (products (replay ?evs
           (fst (POST_checkout till (Some ''u1'') (Some (DINE_IN, CASH)) db_scenario db_scenario)))
           ''A'') = Some 99000"
    by (simp add: Let_def handlers render same_day set_price_def db_scenario_def menu_def till_def noon_def)
  from get price show ?thesis by (rule conjI)
qed

end
